theory Spec2Isabelle
  imports Complex_Main
begin

section \<open>Python run-time errors\<close>

text \<open>
  The source defines no exception class of its own. Every failure of the modelled code is
  an exception raised by the Python run time or by a library call; the constructors below
  carry the names of those built-in exceptions. Python's \<open>float\<close> is modelled by \<open>real\<close>:
  rounding is not part of the model. An exception is modelled by its class and
  by the paths it names: the \<open>filename\<close> and \<open>filename2\<close> of an \<open>OSError\<close> raised by
  \<open>rename\<close>, and the path in \<open>pathlib\<close>'s \<open>ValueError\<close> for an empty name. The other
  exceptions name no path: their messages are fixed texts or name a key.

  A path is the list of its parts, as \<open>pathlib\<close>'s \<open>parts\<close>.
\<close>

type_synonym path = "string list"

datatype error =
    ZeroDivisionError
  | ValueError "path list"
  | IndexError
  | KeyError
  | UnboundLocalError
  | AttributeError
  | FileExistsError path path
  | FileNotFoundError path path
  | IsADirectoryError path path

fun error_paths :: "error \<Rightarrow> path list" where
  "error_paths (ValueError ps) = ps"
| "error_paths (FileExistsError src dst) = [src, dst]"
| "error_paths (FileNotFoundError src dst) = [src, dst]"
| "error_paths (IsADirectoryError src dst) = [src, dst]"
| "error_paths e = []"

text \<open>\<open>a / b\<close> on floats raises \<open>ZeroDivisionError\<close> for a zero divisor.\<close>

definition py_div :: "real \<Rightarrow> real \<Rightarrow> error + real" where
  "py_div a b = (if b = 0 then Inl ZeroDivisionError else Inr (a / b))"

text \<open>\<open>math.log\<close> raises \<open>ValueError\<close> (math domain error) outside the positive reals.\<close>

definition py_log :: "real \<Rightarrow> error + real" where
  "py_log a = (if a \<le> 0 then Inl (ValueError []) else Inr (ln a))"

definition radians :: "real \<Rightarrow> real" where
  "radians d = d * (pi / 180)"

definition deg2rad :: "real \<Rightarrow> real" where
  "deg2rad d = d * (pi / 180)"


section \<open>blender.py: TransverseMercator\<close>

record TransverseMercator =
  self_lat :: real
  self_lon :: real
  self_scale :: real

definition radius :: real where
  "radius = 6378137"

text \<open>\<open>__init__(self, lat=0, lon=0, scale=1)\<close>: the origin is stored in radians.\<close>

definition TransverseMercator_init :: "real \<Rightarrow> real \<Rightarrow> real \<Rightarrow> TransverseMercator" where
  "TransverseMercator_init lat lon scale =
     \<lparr>self_lat = radians lat, self_lon = radians lon, self_scale = scale\<rparr>"

text \<open>
  \<open>from_geographic\<close>, statement by statement, in exact arithmetic. The source has no
  guard: the only failures are the ones the arithmetic itself raises, in the order the
  expressions are evaluated (the quotient inside the logarithm, the logarithm, then the
  quotient inside \<open>atan\<close>).

  Exact arithmetic stands for the doubles of the source only away from the singularities
  of the projection. Where the longitude offset is within rounding of 90 degrees the
  doubles give \<open>B = 1.0\<close> and the source raises where exact arithmetic does not; at an
  offset of 90 degrees the double cosine is about \<open>6.1e-17\<close>, not 0, and the source
  divides where exact arithmetic has no quotient; at a latitude of 90 degrees the double
  tangent is about \<open>1.6e16\<close> where the tangent of HOL at \<open>pi / 2\<close> is 0. Nothing below is
  stated about the projection at such inputs.
\<close>

definition from_geographic :: "TransverseMercator \<Rightarrow> real \<Rightarrow> real \<Rightarrow> error + (real \<times> real)" where
  "from_geographic self lat_deg lon_deg =
     (let lat = radians lat_deg;
          lon = radians lon_deg - self_lon self;
          B = sin lon * cos lat
      in case py_div (1 + B) (1 - B) of
           Inl e \<Rightarrow> Inl e
         | Inr q \<Rightarrow>
             (case py_log q of
                Inl e \<Rightarrow> Inl e
              | Inr l \<Rightarrow>
                  (let x = 0.5 * self_scale self * radius * l
                   in case py_div (tan lat) (cos lon) of
                        Inl e \<Rightarrow> Inl e
                      | Inr t \<Rightarrow>
                          (let y = self_scale self * radius * (arctan t - self_lat self)
                           in Inr (x, y)))))"


section \<open>blender.py: mapillary_to_euler\<close>

text \<open>\<open>deg2rad\<close> applied to the three-element list \<open>[90, 0, -compass_orientation]\<close>.\<close>

definition mapillary_to_euler :: "real \<Rightarrow> real list" where
  "mapillary_to_euler compass_orientation =
     (let euler_rotation = [90, 0, - compass_orientation]
      in map deg2rad euler_rotation)"


section \<open>remap.py: toNumpy\<close>

text \<open>
  A tensor is its shape and its elements, read by a multi-index. \<open>detach\<close> and \<open>cpu\<close>
  leave both unchanged. \<open>permute dims\<close> puts axis \<open>dims ! m\<close> of the input at position
  \<open>m\<close> of the output.
\<close>

datatype dtype = float16 | float32 | float64 | uint8 | int64

record Tensor =
  t_shape :: "nat list"
  t_dtype :: dtype
  t_item :: "nat list \<Rightarrow> real"

record ndarray =
  a_shape :: "nat list"
  a_dtype :: dtype
  a_item :: "nat list \<Rightarrow> real"

fun index_of :: "nat list \<Rightarrow> nat \<Rightarrow> nat" where
  "index_of [] j = 0"
| "index_of (d # ds) j = (if d = j then 0 else Suc (index_of ds j))"

definition permute :: "Tensor \<Rightarrow> nat list \<Rightarrow> Tensor" where
  "permute t dims =
     \<lparr>t_shape = map (\<lambda>d. t_shape t ! d) dims,
      t_dtype = t_dtype t,
      t_item = (\<lambda>idx. t_item t (map (\<lambda>j. idx ! index_of dims j) [0..<length dims]))\<rparr>"

definition numpy :: "Tensor \<Rightarrow> ndarray" where
  "numpy t = \<lparr>a_shape = t_shape t, a_dtype = t_dtype t, a_item = t_item t\<rparr>"

text \<open>\<open>astype(np.float32)\<close>: the element conversion \<open>to_f32\<close> is a parameter.\<close>

definition astype_float32 :: "(real \<Rightarrow> real) \<Rightarrow> ndarray \<Rightarrow> ndarray" where
  "astype_float32 to_f32 a =
     \<lparr>a_shape = a_shape a, a_dtype = float32, a_item = (\<lambda>idx. to_f32 (a_item a idx))\<rparr>"

text \<open>
  \<open>toNumpy.__call__\<close>: \<open>imgs_norm\<close> is bound in the two branches only; reading it unbound
  raises \<open>UnboundLocalError\<close>.
\<close>

definition toNumpy_call :: "(real \<Rightarrow> real) \<Rightarrow> Tensor \<Rightarrow> error + ndarray" where
  "toNumpy_call to_f32 imgs =
     (let imgs_norm =
            (if length (t_shape imgs) = 3 then Some (permute imgs [1, 2, 0])
             else if length (t_shape imgs) = 4 then Some (permute imgs [0, 2, 3, 1])
             else None)
      in case imgs_norm of
           None \<Rightarrow> Inl UnboundLocalError
         | Some t \<Rightarrow> Inr (astype_float32 to_f32 (numpy t)))"

section \<open>Paths and the file system\<close>

text \<open>
  The empty list is the path with an empty name. \<open>joinpath\<close> is \<open>/\<close> with a right
  operand that is one relative part, which is how the source uses it
  (\<open>tmp_dir / render_pass_name\<close>, \<open>savedir / image_id\<close>).
\<close>

definition joinpath :: "path \<Rightarrow> string \<Rightarrow> path" where
  "joinpath p s = p @ [s]"

definition path_name :: "path \<Rightarrow> string" where
  "path_name p = (if p = [] then [] else last p)"

definition path_parent :: "path \<Rightarrow> path" where
  "path_parent p = butlast p"

text \<open>\<open>str.rfind\<close>: the highest index of the character, or \<open>-1\<close>.\<close>

primrec rfind :: "string \<Rightarrow> char \<Rightarrow> int" where
  "rfind [] c = - 1"
| "rfind (x # xs) c =
     (let r = rfind xs c in if 0 \<le> r then r + 1 else if x = c then 0 else - 1)"

text \<open>
  \<open>suffix\<close> and \<open>stem\<close> of \<open>pathlib\<close>: the last dot splits the name, unless it is the
  first or the last character.
\<close>

definition path_suffix :: "path \<Rightarrow> string" where
  "path_suffix p =
     (let name = path_name p; i = rfind name (CHR ''.'')
      in if 0 < i \<and> i < int (length name) - 1 then drop (nat i) name else [])"

definition path_stem :: "path \<Rightarrow> string" where
  "path_stem p =
     (let name = path_name p; i = rfind name (CHR ''.'')
      in if 0 < i \<and> i < int (length name) - 1 then take (nat i) name else name)"

text \<open>\<open>with_name\<close>, \<open>with_stem\<close>, \<open>with_suffix\<close> raise \<open>ValueError\<close> on an empty name.\<close>

definition with_name :: "path \<Rightarrow> string \<Rightarrow> error + path" where
  "with_name p n = (if path_name p = [] then Inl (ValueError [p]) else Inr (butlast p @ [n]))"

definition with_stem :: "path \<Rightarrow> string \<Rightarrow> error + path" where
  "with_stem p s = with_name p (s @ path_suffix p)"

definition with_suffix :: "path \<Rightarrow> string \<Rightarrow> error + path" where
  "with_suffix p sfx =
     (let name = path_name p
      in if name = [] then Inl (ValueError [p])
         else (let old_suffix = path_suffix p
               in if old_suffix = [] then Inr (butlast p @ [name @ sfx])
                  else Inr (butlast p @ [take (length name - length old_suffix) name @ sfx])))"

text \<open>
  The file system: the directories that exist, and the regular files with their contents,
  in the order in which a directory listing yields them. \<open>posix\<close> tells the platform,
  on which the behaviour of \<open>rename\<close> onto an existing target depends.
\<close>

record filesystem =
  posix :: bool
  dirs :: "path list"
  files :: "(path \<times> string) list"

definition is_dir :: "filesystem \<Rightarrow> path \<Rightarrow> bool" where
  "is_dir fs p = (p \<in> set (dirs fs))"

definition is_file :: "filesystem \<Rightarrow> path \<Rightarrow> bool" where
  "is_file fs p = (p \<in> fst ` set (files fs))"

text \<open>The files directly inside a directory, with their contents, in listing order.\<close>

definition listdir :: "filesystem \<Rightarrow> path \<Rightarrow> (path \<times> string) list" where
  "listdir fs d = filter (\<lambda>e. fst e \<noteq> [] \<and> path_parent (fst e) = d) (files fs)"

text \<open>\<open>dir_.glob("*.*")\<close>: the entries of the directory whose name contains a dot.\<close>

definition glob_star_dot_star :: "filesystem \<Rightarrow> path \<Rightarrow> path list" where
  "glob_star_dot_star fs d =
     map fst (filter (\<lambda>e. CHR ''.'' \<in> set (path_name (fst e))) (listdir fs d))"

text \<open>
  \<open>Path.rename\<close> of a regular file, after the documentation of \<open>os.rename\<close>: a missing
  source or a missing target directory raises \<open>FileNotFoundError\<close>; an existing target is
  replaced silently on POSIX when it is a file and raises \<open>IsADirectoryError\<close> when it is
  a directory; on Windows an existing target always raises \<open>FileExistsError\<close>. The
  exception names the source and the target. A failed rename changes nothing.
\<close>

definition rename :: "filesystem \<Rightarrow> path \<Rightarrow> path \<Rightarrow> filesystem \<times> (error + unit)" where
  "rename fs src dst =
     (case map_of (files fs) src of
        None \<Rightarrow> (fs, Inl (FileNotFoundError src dst))
      | Some content \<Rightarrow>
          if src = dst then (fs, Inr ())
          else if \<not> is_dir fs (path_parent dst) then (fs, Inl (FileNotFoundError src dst))
          else if is_dir fs dst then
            (fs, Inl (if posix fs then IsADirectoryError src dst else FileExistsError src dst))
          else if is_file fs dst \<and> \<not> posix fs then (fs, Inl (FileExistsError src dst))
          else (fs\<lparr>files := filter (\<lambda>e. fst e \<noteq> src \<and> fst e \<noteq> dst) (files fs)
                              @ [(dst, content)]\<rparr>, Inr ()))"


section \<open>The render host\<close>

text \<open>
  The state the source reaches through \<open>bpy.context.scene\<close>: the scene camera, the
  compositor node tree with its nodes and links (\<open>scene.node_tree\<close> is \<open>None\<close> for a scene
  that does not use nodes), the names of the outputs a render-layers node offers, and the
  file system. A link is (name of the source node, name of its output, name of the sink
  node).
\<close>

record camera =
  cam_location :: "real \<times> real \<times> real"
  cam_rotation_euler :: "real list"

datatype node =
    CompositorNodeRLayers "int \<times> int" string
  | CompositorNodeOutputFile "int \<times> int" string path

fun node_name :: "node \<Rightarrow> string" where
  "node_name (CompositorNodeRLayers loc n) = n"
| "node_name (CompositorNodeOutputFile loc n base_path) = n"

type_synonym link = "string \<times> string \<times> string"

record node_tree =
  tree_nodes :: "node list"
  tree_links :: "link list"

record world =
  w_camera :: "camera option"
  w_node_tree :: "node_tree option"
  w_passes :: "string list"
  w_fs :: filesystem

text \<open>
  \<open>create_camera\<close>: every camera is deleted, a new one is added at the origin and made
  the scene camera. The render settings it writes are not part of the state.
\<close>

definition create_camera :: "world \<Rightarrow> world" where
  "create_camera w =
     w\<lparr>w_camera := Some \<lparr>cam_location = (0, 0, 0), cam_rotation_euler = [0, 0, 0]\<rparr>\<rparr>"

text \<open>
  \<open>tree.nodes.remove(node)\<close>: the node leaves the tree, and with it the links that start
  or end at it. The loop \<open>for node in tree.nodes\<close> visits the nodes the tree has when the
  loop starts.
\<close>

definition nodes_remove :: "node \<Rightarrow> node_tree \<Rightarrow> node_tree" where
  "nodes_remove n tree =
     tree\<lparr>tree_nodes := filter (\<lambda>m. node_name m \<noteq> node_name n) (tree_nodes tree),
          tree_links := filter (\<lambda>(src, out, snk). src \<noteq> node_name n \<and> snk \<noteq> node_name n)
                          (tree_links tree)\<rparr>"

text \<open>
  The host keeps the names of the nodes of a tree unique: assigning \<open>node.name\<close> stores
  \<open>unique_name taken name\<close>, where \<open>taken\<close> are the names of the other nodes of the
  tree. The rule belongs to the host and is a parameter.

  The body of \<open>for i, render_pass_name in enumerate(render_pass_names)\<close>. Reading
  \<open>renderlayers_node.outputs[render_pass_name]\<close> raises \<open>KeyError\<close> for a name that is
  not an output of the node; the sink node is already in the tree by then. The source
  node is referred to by the name \<open>rl\<close> it was stored under.
\<close>

fun create_nodes_loop ::
  "(string list \<Rightarrow> string \<Rightarrow> string) \<Rightarrow> string list \<Rightarrow> string \<Rightarrow> path \<Rightarrow> nat \<Rightarrow> string list
     \<Rightarrow> node_tree \<Rightarrow> path list \<Rightarrow> node_tree \<times> (error + path list)" where
  "create_nodes_loop unique_name outputs rl tmp_dir i [] tree save_dirs = (tree, Inr save_dirs)"
| "create_nodes_loop unique_name outputs rl tmp_dir i (render_pass_name # rest) tree save_dirs =
     (let name = unique_name (map node_name (tree_nodes tree)) render_pass_name;
          save_dirs' = save_dirs[i := joinpath tmp_dir render_pass_name];
          fileoutput_node =
            CompositorNodeOutputFile (400, - 120 * int i) name (save_dirs' ! i);
          tree1 = tree\<lparr>tree_nodes := tree_nodes tree @ [fileoutput_node]\<rparr>
      in if render_pass_name \<in> set outputs
         then create_nodes_loop unique_name outputs rl tmp_dir (Suc i) rest
                (tree1\<lparr>tree_links := tree_links tree1 @ [(rl, render_pass_name, name)]\<rparr>)
                save_dirs'
         else (tree1, Inl KeyError))"

text \<open>
  \<open>create_nodes\<close>. With \<open>scene.node_tree\<close> being \<open>None\<close>, reading \<open>tree.nodes\<close> raises
  \<open>AttributeError\<close>.
\<close>

definition create_nodes ::
  "(string list \<Rightarrow> string \<Rightarrow> string) \<Rightarrow> world \<Rightarrow> path \<Rightarrow> string list
     \<Rightarrow> world \<times> (error + path list)" where
  "create_nodes unique_name w tmp_dir render_pass_names =
     (case w_node_tree w of
        None \<Rightarrow> (w, Inl AttributeError)
      | Some tree \<Rightarrow>
          (let tree1 = fold nodes_remove (tree_nodes tree) tree;
               rl = unique_name (map node_name (tree_nodes tree1)) ''RenderLayers'';
               renderlayers_node = CompositorNodeRLayers (0, 0) rl;
               tree2 = tree1\<lparr>tree_nodes := tree_nodes tree1 @ [renderlayers_node]\<rparr>;
               save_dirs = replicate (length render_pass_names) []
           in case create_nodes_loop unique_name (w_passes w) rl tmp_dir 0 render_pass_names
                     tree2 save_dirs of
                (tree3, r) \<Rightarrow> (w\<lparr>w_node_tree := Some tree3\<rparr>, r)))"

text \<open>
  \<open>place_camera\<close>: \<open>bpy.context.scene.camera\<close> is \<open>None\<close> when the scene has no camera,
  and the first assignment then raises \<open>AttributeError\<close>.
\<close>

definition offset_altitude_default :: real where
  "offset_altitude_default = 0.3"

definition place_camera ::
  "world \<Rightarrow> real \<times> real \<times> real \<Rightarrow> real \<Rightarrow> real \<Rightarrow> world \<times> (error + unit)" where
  "place_camera w xyz computed_compass_angle offset_altitude =
     (case w_camera w of
        None \<Rightarrow> (w, Inl AttributeError)
      | Some cam \<Rightarrow>
          (case xyz of (x, y, z) \<Rightarrow>
             (w\<lparr>w_camera := Some (cam\<lparr>cam_location := (x, y, z + offset_altitude),
                                      cam_rotation_euler :=
                                        mapillary_to_euler computed_compass_angle\<rparr>)\<rparr>,
              Inr ())))"

text \<open>
  \<open>move_render_passes\<close>. \<open>list(...)[0]\<close> raises \<open>IndexError\<close> on an empty list; the
  parent of a globbed path is the directory that was globbed.
\<close>

definition new_filepath :: "path \<Rightarrow> string \<Rightarrow> string \<Rightarrow> error + path" where
  "new_filepath output_dir image_id pass_name =
     (case with_stem output_dir (image_id @ ''_'' @ pass_name) of
        Inl e \<Rightarrow> Inl e
      | Inr p \<Rightarrow> with_suffix p ''.jpg'')"

fun move_render_passes_loop ::
  "filesystem \<Rightarrow> path list \<Rightarrow> path \<Rightarrow> string \<Rightarrow> filesystem \<times> (error + unit)" where
  "move_render_passes_loop fs [] output_dir image_id = (fs, Inr ())"
| "move_render_passes_loop fs (dir # save_dirs) output_dir image_id =
     (case glob_star_dot_star fs dir of
        [] \<Rightarrow> (fs, Inl IndexError)
      | pass_img_path # others \<Rightarrow>
          (let pass_name = path_stem (path_parent pass_img_path)
           in case new_filepath output_dir image_id pass_name of
                Inl e \<Rightarrow> (fs, Inl e)
              | Inr new \<Rightarrow>
                  (case rename fs pass_img_path new of
                     (fs', Inl e) \<Rightarrow> (fs', Inl e)
                   | (fs', Inr u) \<Rightarrow> move_render_passes_loop fs' save_dirs output_dir image_id)))"

definition move_render_passes :: "filesystem \<Rightarrow> path list \<Rightarrow> path \<Rightarrow> filesystem \<times> (error + unit)" where
  "move_render_passes fs save_dirs output_dir =
     (let image_id = path_stem output_dir
      in move_render_passes_loop fs save_dirs output_dir image_id)"


section \<open>blender.py: main2\<close>

text \<open>
  One row of the dataset, in the order the source unpacks it. The rows, the scene's
  \<open>lat\<close> and \<open>lon\<close> properties, the render operator and the host's rule for node names
  belong to the environment and are parameters.
\<close>

record streetview_data =
  row_image_id :: string
  row_lon :: real
  row_lat :: real
  row_alt :: real
  row_computed_compass_angle :: real

definition root_dir :: path where
  "root_dir = [[CHR ''C'', CHR '':'', CHR 0x5C], ''Users'', ''marco'', ''Documents'', ''Cours'',
               ''Individual Research Project - IRP'', ''code'', ''data'']"

definition tmp_dir :: path where
  "tmp_dir = joinpath root_dir ''tmp''"

definition savedir :: path where
  "savedir = joinpath root_dir ''blender''"

definition render_pass_names :: "string list" where
  "render_pass_names = [''Depth'', ''Normal'', ''DiffCol'']"

fun main2_loop ::
  "(world \<Rightarrow> world \<times> (error + unit)) \<Rightarrow> TransverseMercator \<Rightarrow> path list \<Rightarrow> world
     \<Rightarrow> streetview_data list \<Rightarrow> world \<times> (error + unit)" where
  "main2_loop render projection save_dirs w [] = (w, Inr ())"
| "main2_loop render projection save_dirs w (row # rows) =
     (case from_geographic projection (row_lat row) (row_lon row) of
        Inl e \<Rightarrow> (w, Inl e)
      | Inr (x, y) \<Rightarrow>
          (case place_camera w (x, y, row_alt row) (row_computed_compass_angle row)
                  offset_altitude_default of
             (w1, Inl e) \<Rightarrow> (w1, Inl e)
           | (w1, Inr u1) \<Rightarrow>
               (case render w1 of
                  (w2, Inl e) \<Rightarrow> (w2, Inl e)
                | (w2, Inr u2) \<Rightarrow>
                    (case move_render_passes (w_fs w2) save_dirs
                            (joinpath savedir (row_image_id row)) of
                       (fs3, Inl e) \<Rightarrow> (w2\<lparr>w_fs := fs3\<rparr>, Inl e)
                     | (fs3, Inr u3) \<Rightarrow>
                         main2_loop render projection save_dirs (w2\<lparr>w_fs := fs3\<rparr>) rows))))"

definition main2 ::
  "(string list \<Rightarrow> string \<Rightarrow> string) \<Rightarrow> (world \<Rightarrow> world \<times> (error + unit)) \<Rightarrow> real \<Rightarrow> real
     \<Rightarrow> streetview_data list \<Rightarrow> world \<Rightarrow> world \<times> (error + unit)" where
  "main2 unique_name render scene_lat scene_lon dataset w =
     (let w1 = create_camera w
      in case create_nodes unique_name w1 tmp_dir render_pass_names of
           (w2, Inl e) \<Rightarrow> (w2, Inl e)
         | (w2, Inr save_dirs) \<Rightarrow>
             (let projection = TransverseMercator_init scene_lat scene_lon 1
              in main2_loop render projection save_dirs w2 dataset))"

section \<open>Closed forms used to state results\<close>

text \<open>
  The names under which the host stores nodes that are created one after the other and
  asked to be named \<open>names\<close>, in a tree whose other nodes are named \<open>taken\<close>.
\<close>

fun stored_names :: "(string list \<Rightarrow> string \<Rightarrow> string) \<Rightarrow> string list \<Rightarrow> string list \<Rightarrow> string list" where
  "stored_names unique_name taken [] = []"
| "stored_names unique_name taken (n # ns) =
     unique_name taken n # stored_names unique_name (taken @ [unique_name taken n]) ns"

text \<open>
  The sink nodes that \<open>create_nodes\<close> builds for the layers \<open>names\<close>, numbered from
  \<open>i\<close> and stored under the names \<open>stored\<close>.
\<close>

definition sink_nodes :: "path \<Rightarrow> nat \<Rightarrow> string list \<Rightarrow> string list \<Rightarrow> node list" where
  "sink_nodes tmp i names stored =
     map (\<lambda>(k, n, m). CompositorNodeOutputFile (400, - 120 * int k) m (joinpath tmp n))
       (zip [i..<i + length names] (zip names stored))"

text \<open>An entry of the file list lies directly inside one of the given directories.\<close>

definition in_dirs :: "path list \<Rightarrow> path \<times> string \<Rightarrow> bool" where
  "in_dirs ds e = (fst e \<noteq> [] \<and> path_parent (fst e) \<in> set ds)"


section \<open>Example states\<close>

text \<open>A scene without camera and without node tree, on an empty file system.\<close>

definition empty_world :: world where
  "empty_world = \<lparr>w_camera = None, w_node_tree = None, w_passes = [],
     w_fs = \<lparr>posix = True, dirs = [], files = []\<rparr>\<rparr>"

text \<open>A rule for node names that keeps a free name and numbers a taken one.\<close>

definition numbered_name :: "string list \<Rightarrow> string \<Rightarrow> string" where
  "numbered_name taken n = (if n \<in> set taken then n @ ''.001'' else n)"

text \<open>
  A scene that holds the nodes of an earlier graph, offers four render passes and has
  an empty file system.
\<close>

definition example_scene :: world where
  "example_scene =
     \<lparr>w_camera = None,
      w_node_tree = Some
        \<lparr>tree_nodes = [CompositorNodeRLayers (0, 0) ''Render Layers'',
                       CompositorNodeOutputFile (300, 0) ''File Output'' [''old'']],
         tree_links = [(''Render Layers'', ''Image'', ''File Output'')]\<rparr>,
      w_passes = [''Image'', ''Depth'', ''Normal'', ''DiffCol''],
      w_fs = \<lparr>posix = False, dirs = [], files = []\<rparr>\<rparr>"

text \<open>
  File systems after a render: \<open>staged\<close> holds one PNG file in \<open>tmp/Depth\<close> and nothing
  in \<open>tmp/Normal\<close>; \<open>staged_two\<close> holds two files in \<open>tmp/Depth\<close>; \<open>staged_both\<close> holds
  one file in each of the two directories; \<open>staged_plain\<close> holds one file without a dot
  in its name; \<open>staged_taken\<close> holds one file in \<open>tmp/Depth\<close> and already has
  \<open>out/A_Depth.jpg\<close>.
\<close>

definition staged :: "bool \<Rightarrow> filesystem" where
  "staged px =
     \<lparr>posix = px,
      dirs = [[''tmp''], [''tmp'', ''Depth''], [''tmp'', ''Normal''], [''out'']],
      files = [([''tmp'', ''Depth'', ''Image0001.png''], ''depth of A'')]\<rparr>"

definition staged_two :: "bool \<Rightarrow> filesystem" where
  "staged_two px =
     \<lparr>posix = px,
      dirs = [[''tmp''], [''tmp'', ''Depth''], [''out'']],
      files = [([''tmp'', ''Depth'', ''Image0001.jpg''], ''stale depth''),
               ([''tmp'', ''Depth'', ''Image0002.jpg''], ''depth of A'')]\<rparr>"

definition staged_both :: "bool \<Rightarrow> filesystem" where
  "staged_both px =
     \<lparr>posix = px,
      dirs = [[''tmp''], [''tmp'', ''Depth''], [''tmp'', ''Normal''], [''out'']],
      files = [([''tmp'', ''Depth'', ''Image0001.png''], ''depth of A''),
               ([''tmp'', ''Normal'', ''Image0001.exr''], ''normal of A'')]\<rparr>"

definition staged_plain :: "bool \<Rightarrow> filesystem" where
  "staged_plain px =
     \<lparr>posix = px,
      dirs = [[''tmp''], [''tmp'', ''Depth''], [''out'']],
      files = [([''tmp'', ''Depth'', ''Image0001''], ''depth of A'')]\<rparr>"

definition staged_taken :: "bool \<Rightarrow> filesystem" where
  "staged_taken px =
     \<lparr>posix = px,
      dirs = [[''tmp''], [''tmp'', ''Depth''], [''out'']],
      files = [([''out'', ''A_Depth.jpg''], ''earlier depth of A''),
               ([''tmp'', ''Depth'', ''Image0001.jpg''], ''depth of A'')]\<rparr>"


text \<open>
  A scene on Windows with an empty node tree and the directories \<open>main2\<close> works in; a
  render operator that writes one file into each of the three staging directories; a row
  of the dataset; the files staged by one render and the files one reconciliation of
  that row leaves in the output directory.
\<close>

definition studio :: world where
  "studio =
     \<lparr>w_camera = None,
      w_node_tree = Some \<lparr>tree_nodes = [], tree_links = []\<rparr>,
      w_passes = [''Image'', ''Depth'', ''Normal'', ''DiffCol''],
      w_fs = \<lparr>posix = False,
              dirs = [tmp_dir, joinpath tmp_dir ''Depth'', joinpath tmp_dir ''Normal'',
                      joinpath tmp_dir ''DiffCol'', savedir],
              files = []\<rparr>\<rparr>"

definition render_three :: "world \<Rightarrow> world \<times> (error + unit)" where
  "render_three w =
     (w\<lparr>w_fs := (w_fs w)
         \<lparr>files := files (w_fs w)
            @ [(joinpath (joinpath tmp_dir ''Depth'') ''Image0001.jpg'', ''depth''),
               (joinpath (joinpath tmp_dir ''Normal'') ''Image0001.jpg'', ''normal''),
               (joinpath (joinpath tmp_dir ''DiffCol'') ''Image0001.jpg'', ''colour'')]\<rparr>\<rparr>,
      Inr ())"

definition row_A :: streetview_data where
  "row_A = \<lparr>row_image_id = ''A'', row_lon = 0, row_lat = 0, row_alt = 10,
            row_computed_compass_angle = 0\<rparr>"

definition staged_files :: "(path \<times> string) list" where
  "staged_files =
     [(joinpath (joinpath tmp_dir ''Depth'') ''Image0001.jpg'', ''depth''),
      (joinpath (joinpath tmp_dir ''Normal'') ''Image0001.jpg'', ''normal''),
      (joinpath (joinpath tmp_dir ''DiffCol'') ''Image0001.jpg'', ''colour'')]"

definition moved_files :: "(path \<times> string) list" where
  "moved_files =
     [(joinpath savedir ''A_Depth.jpg'', ''depth''),
      (joinpath savedir ''A_Normal.jpg'', ''normal''),
      (joinpath savedir ''A_DiffCol.jpg'', ''colour'')]"


section \<open>Projection\<close>

text \<open>
  In exact arithmetic the origin of the projection is projected to \<open>(0, 0)\<close> when its
  latitude lies strictly between -90 and 90 degrees.
\<close>

lemma from_geographic_origin:
  assumes "- 90 < lat0" and "lat0 < 90"
  shows "from_geographic (TransverseMercator_init lat0 lon0 scale) lat0 lon0 = Inr (0, 0)"
proof -
  have "radians lat0 < 90 * (pi / 180)" "(- 90) * (pi / 180) < radians lat0"
    unfolding radians_def using assms pi_gt_zero
    by (intro mult_strict_right_mono; simp)+
  then have r: "- (pi / 2) < radians lat0" "radians lat0 < pi / 2"
    by simp_all
  have a: "arctan (tan (radians lat0)) = radians lat0"
    using r by (rule arctan_tan)
  show ?thesis
    by (simp add: from_geographic_def TransverseMercator_init_def py_div_def py_log_def a)
qed


section \<open>Pose\<close>

text \<open>
  C6: for every compass bearing \<open>b\<close> in degrees, \<open>mapillary_to_euler b\<close> is
  \<open>(pi / 2, 0, - radians b)\<close>; at bearing 0 it is \<open>(pi / 2, 0, 0)\<close> and at bearing 90 it
  is \<open>(pi / 2, 0, - pi / 2)\<close>.
\<close>

theorem mapillary_to_euler_value:
  "mapillary_to_euler b = [pi / 2, 0, - radians b]
   \<and> mapillary_to_euler 0 = [pi / 2, 0, 0]
   \<and> mapillary_to_euler 90 = [pi / 2, 0, - (pi / 2)]"
  by (simp add: mapillary_to_euler_def deg2rad_def radians_def)

text \<open>
  The bearing is not normalised: the third angle returned for \<open>b + 360\<close> is the one
  returned for \<open>b\<close>, lowered by a full turn.
\<close>

lemma mapillary_to_euler_full_turn:
  "mapillary_to_euler (b + 360) =
     [mapillary_to_euler b ! 0, mapillary_to_euler b ! 1, mapillary_to_euler b ! 2 - 2 * pi]"
proof -
  have "deg2rad (- b - 360) = deg2rad (- b) - 2 * pi"
    by (simp add: deg2rad_def algebra_simps)
  then show ?thesis
    by (simp add: mapillary_to_euler_def)
qed

text \<open>
  C9: the orientation is periodic in 360 degrees. For every bearing \<open>b\<close>, the orientation
  returned for \<open>b + 360\<close> is the same rotation as the one returned for \<open>b\<close>: both are
  triples, the first two angles are equal, and the third angles have the same sine and
  the same cosine, so that every angle of the one has the sine and the cosine of the
  corresponding angle of the other.
\<close>

theorem mapillary_to_euler_period:
  "length (mapillary_to_euler (b + 360)) = 3 \<and> length (mapillary_to_euler b) = 3
   \<and> mapillary_to_euler (b + 360) ! 0 = mapillary_to_euler b ! 0
   \<and> mapillary_to_euler (b + 360) ! 1 = mapillary_to_euler b ! 1
   \<and> sin (mapillary_to_euler (b + 360) ! 2) = sin (mapillary_to_euler b ! 2)
   \<and> cos (mapillary_to_euler (b + 360) ! 2) = cos (mapillary_to_euler b ! 2)
   \<and> map sin (mapillary_to_euler (b + 360)) = map sin (mapillary_to_euler b)
   \<and> map cos (mapillary_to_euler (b + 360)) = map cos (mapillary_to_euler b)"
proof -
  have e: "deg2rad (- b - 360) = deg2rad (- b) - 2 * pi"
    by (simp add: deg2rad_def algebra_simps)
  have s: "sin (deg2rad (- b) - 2 * pi) = sin (deg2rad (- b))"
    using sin_periodic [of "deg2rad (- b) - 2 * pi"] by simp
  have c: "cos (deg2rad (- b) - 2 * pi) = cos (deg2rad (- b))"
    using cos_periodic [of "deg2rad (- b) - 2 * pi"] by simp
  show ?thesis
    by (simp add: mapillary_to_euler_def e s c)
qed


section \<open>Camera\<close>

text \<open>
  C5: when the scene has a camera, \<open>place_camera\<close> with the default altitude offset sets
  its location to \<open>(x, y, z + 0.3)\<close> and its rotation to the angles derived from the
  bearing, both in the state it returns, and raises nothing. The point at the origin of
  the projection with latitude and longitude 45 is projected to \<open>(0, 0)\<close>, and placing it
  with altitude 10 and bearing 0 gives location \<open>(0, 0, 10.3)\<close> and rotation
  \<open>(pi / 2, 0, 0)\<close>.
\<close>

theorem place_camera_default:
  "(w_camera w = Some cam \<longrightarrow>
      place_camera w (x, y, z) b offset_altitude_default =
        (w\<lparr>w_camera := Some (cam\<lparr>cam_location := (x, y, z + 0.3),
                                cam_rotation_euler := mapillary_to_euler b\<rparr>)\<rparr>, Inr ()))
   \<and> from_geographic (TransverseMercator_init 45 45 1) 45 45 = Inr (0, 0)
   \<and> (w_camera w = Some cam \<longrightarrow>
      place_camera w (0, 0, 10) 0 offset_altitude_default =
        (w\<lparr>w_camera := Some (cam\<lparr>cam_location := (0, 0, 10.3),
                                cam_rotation_euler := [pi / 2, 0, 0]\<rparr>)\<rparr>, Inr ()))"
proof -
  have o: "from_geographic (TransverseMercator_init 45 45 1) 45 45 = Inr (0, 0)"
    by (rule from_geographic_origin) simp_all
  show ?thesis
    by (simp add: o place_camera_def offset_altitude_default_def mapillary_to_euler_def
          deg2rad_def)
qed

theorem place_camera_default_witness:
  "w_camera (create_camera empty_world)
     = Some \<lparr>cam_location = (0, 0, 0), cam_rotation_euler = [0, 0, 0]\<rparr>
   \<and> w_camera (fst (place_camera (create_camera empty_world) (0, 0, 10) 0
                      offset_altitude_default))
     = Some \<lparr>cam_location = (0, 0, 10.3), cam_rotation_euler = [pi / 2, 0, 0]\<rparr>
   \<and> snd (place_camera (create_camera empty_world) (0, 0, 10) 0 offset_altitude_default)
     = Inr ()"
proof -
  let ?cam = "\<lparr>cam_location = (0, 0, 0), cam_rotation_euler = [0, 0, 0]\<rparr>"
  have c: "w_camera (create_camera empty_world) = Some ?cam"
    by (simp add: create_camera_def)
  from place_camera_default [of "create_camera empty_world" ?cam 0 0 10 0] c
  have "place_camera (create_camera empty_world) (0, 0, 10) 0 offset_altitude_default =
        ((create_camera empty_world)\<lparr>w_camera := Some (?cam\<lparr>cam_location := (0, 0, 10.3),
                                cam_rotation_euler := [pi / 2, 0, 0]\<rparr>)\<rparr>, Inr ())"
    by blast
  then show ?thesis using c by simp
qed


section \<open>toNumpy\<close>

text \<open>
  C10: a tensor whose rank is neither 3 nor 4 makes the call raise (\<open>imgs_norm\<close> is
  unbound when it is read); a tensor of shape \<open>(c, h, w)\<close> gives a float32 array of shape
  \<open>(h, w, c)\<close> and one of shape \<open>(n, c, h, w)\<close> a float32 array of shape \<open>(n, h, w, c)\<close>,
  with the elements of the input at the permuted indices.
\<close>

theorem toNumpy_call_rank:
  "(length (t_shape imgs) \<noteq> 3 \<and> length (t_shape imgs) \<noteq> 4
      \<longrightarrow> toNumpy_call to_f32 imgs = Inl UnboundLocalError)
   \<and> (t_shape imgs = [c, h, w] \<longrightarrow>
       (\<exists>a. toNumpy_call to_f32 imgs = Inr a \<and> a_shape a = [h, w, c] \<and> a_dtype a = float32
          \<and> (\<forall>i j k. a_item a [i, j, k] = to_f32 (t_item imgs [k, i, j]))))
   \<and> (t_shape imgs = [n, c, h, w] \<longrightarrow>
       (\<exists>a. toNumpy_call to_f32 imgs = Inr a \<and> a_shape a = [n, h, w, c] \<and> a_dtype a = float32
          \<and> (\<forall>b i j k. a_item a [b, i, j, k] = to_f32 (t_item imgs [b, k, i, j]))))"
  by (simp add: toNumpy_call_def permute_def numpy_def astype_float32_def upt_rec)

theorem toNumpy_call_rank_witness:
  "length (t_shape \<lparr>t_shape = [2, 3], t_dtype = uint8, t_item = (\<lambda>idx. 0)\<rparr>) \<noteq> 3
   \<and> length (t_shape \<lparr>t_shape = [2, 3], t_dtype = uint8, t_item = (\<lambda>idx. 0)\<rparr>) \<noteq> 4
   \<and> toNumpy_call (\<lambda>v. v) \<lparr>t_shape = [2, 3], t_dtype = uint8, t_item = (\<lambda>idx. 0)\<rparr>
       = Inl UnboundLocalError
   \<and> (\<exists>a. toNumpy_call (\<lambda>v. v)
             \<lparr>t_shape = [3, 4, 5], t_dtype = uint8, t_item = (\<lambda>idx. real (hd idx))\<rparr> = Inr a
        \<and> a_shape a = [4, 5, 3] \<and> a_dtype a = float32 \<and> a_item a [0, 1, 2] = 2)
   \<and> (\<exists>a. toNumpy_call (\<lambda>v. v)
             \<lparr>t_shape = [7, 3, 4, 5], t_dtype = uint8, t_item = (\<lambda>idx. real (idx ! 1))\<rparr> = Inr a
        \<and> a_shape a = [7, 4, 5, 3] \<and> a_dtype a = float32 \<and> a_item a [0, 0, 1, 2] = 2)"
proof -
  let ?t2 = "\<lparr>t_shape = [2, 3], t_dtype = uint8, t_item = (\<lambda>idx. 0)\<rparr>"
  let ?t3 = "\<lparr>t_shape = [3, 4, 5], t_dtype = uint8, t_item = (\<lambda>idx. real (hd idx))\<rparr>"
  let ?t4 = "\<lparr>t_shape = [7, 3, 4, 5], t_dtype = uint8, t_item = (\<lambda>idx. real (idx ! 1))\<rparr>"
  have a: "toNumpy_call (\<lambda>v. v) ?t2 = Inl UnboundLocalError"
    using toNumpy_call_rank [of ?t2 "\<lambda>v. v"] by simp
  have "t_shape ?t3 = [3, 4, 5]" by simp
  with toNumpy_call_rank [of ?t3 "\<lambda>v. v" 3 4 5]
  obtain a3 where b: "toNumpy_call (\<lambda>v. v) ?t3 = Inr a3" "a_shape a3 = [4, 5, 3]"
     "a_dtype a3 = float32" "\<forall>i j k. a_item a3 [i, j, k] = t_item ?t3 [k, i, j]"
    by blast
  have "t_shape ?t4 = [7, 3, 4, 5]" by simp
  with toNumpy_call_rank [of ?t4 "\<lambda>v. v" 3 4 5 7]
  obtain a4 where c: "toNumpy_call (\<lambda>v. v) ?t4 = Inr a4" "a_shape a4 = [7, 4, 5, 3]"
     "a_dtype a4 = float32" "\<forall>b i j k. a_item a4 [b, i, j, k] = t_item ?t4 [b, k, i, j]"
    by blast
  from b(4) have b': "a_item a3 [0, 1, 2] = 2" by simp
  from c(4) have c': "a_item a4 [0, 0, 1, 2] = 2" by simp
  show ?thesis using a b(1-3) b' c(1-3) c' by simp
qed

section \<open>Render graph\<close>

lemma fold_nodes_remove:
  "fold nodes_remove ns tree =
     tree\<lparr>tree_nodes := filter (\<lambda>m. node_name m \<notin> node_name ` set ns) (tree_nodes tree),
          tree_links := filter (\<lambda>(src, out, snk). src \<notin> node_name ` set ns
                                         \<and> snk \<notin> node_name ` set ns) (tree_links tree)\<rparr>"
proof (induction ns arbitrary: tree)
  case Nil
  show ?case by simp
next
  case (Cons n ns)
  have "fold nodes_remove (n # ns) tree = fold nodes_remove ns (nodes_remove n tree)"
    by simp
  also have "\<dots> = (nodes_remove n tree)
     \<lparr>tree_nodes := filter (\<lambda>m. node_name m \<notin> node_name ` set ns)
                      (tree_nodes (nodes_remove n tree)),
       tree_links := filter (\<lambda>(src, out, snk). src \<notin> node_name ` set ns
                                         \<and> snk \<notin> node_name ` set ns)
                    (tree_links (nodes_remove n tree))\<rparr>"
    by (rule Cons.IH)
  also have "\<dots> = tree\<lparr>tree_nodes := filter (\<lambda>m. node_name m \<notin> node_name ` set (n # ns))
                                      (tree_nodes tree),
       tree_links := filter (\<lambda>(src, out, snk). src \<notin> node_name ` set (n # ns)
                                         \<and> snk \<notin> node_name ` set (n # ns)) (tree_links tree)\<rparr>"
  proof -
    have a: "filter (\<lambda>m. node_name m \<notin> node_name ` set ns)
               (filter (\<lambda>m. node_name m \<noteq> node_name n) (tree_nodes tree))
             = filter (\<lambda>m. node_name m \<notin> node_name ` set (n # ns)) (tree_nodes tree)"
      unfolding filter_filter by (rule filter_cong [OF refl]) auto
    have b: "filter (\<lambda>(src, out, snk). src \<notin> node_name ` set ns \<and> snk \<notin> node_name ` set ns)
               (filter (\<lambda>(src, out, snk). src \<noteq> node_name n \<and> snk \<noteq> node_name n)
                  (tree_links tree))
             = filter (\<lambda>(src, out, snk). src \<notin> node_name ` set (n # ns)
                                         \<and> snk \<notin> node_name ` set (n # ns)) (tree_links tree)"
      unfolding filter_filter by (rule filter_cong [OF refl]) auto
    have sel: "tree_nodes (nodes_remove n tree)
                 = filter (\<lambda>m. node_name m \<noteq> node_name n) (tree_nodes tree)"
      "tree_links (nodes_remove n tree)
         = filter (\<lambda>(src, out, snk). src \<noteq> node_name n \<and> snk \<noteq> node_name n) (tree_links tree)"
      by (simp_all add: nodes_remove_def)
    show ?thesis
      unfolding sel a b by (simp add: nodes_remove_def)
  qed
  finally show ?case .
qed

lemma sink_nodes_Cons:
  "sink_nodes tmp i (n # names) (m # stored) =
     CompositorNodeOutputFile (400, - 120 * int i) m (joinpath tmp n)
       # sink_nodes tmp (Suc i) names stored"
proof -
  have "i < i + length (n # names)" by simp
  then have "[i..<i + length (n # names)] = i # [Suc i..<i + length (n # names)]"
    by (rule upt_conv_Cons)
  then show ?thesis
    by (simp add: sink_nodes_def)
qed

lemma create_nodes_loop_ok:
  assumes "set names \<subseteq> set outputs" and "i + length names \<le> length sd"
  shows "create_nodes_loop u outputs rl tmp i names tree sd =
     (tree\<lparr>tree_nodes := tree_nodes tree
               @ sink_nodes tmp i names (stored_names u (map node_name (tree_nodes tree)) names),
           tree_links := tree_links tree
               @ map (\<lambda>(n, m). (rl, n, m))
                   (zip names (stored_names u (map node_name (tree_nodes tree)) names))\<rparr>,
      Inr (take i sd @ map (joinpath tmp) names @ drop (i + length names) sd))"
  using assms
proof (induction names arbitrary: i tree sd)
  case Nil
  then show ?case by (simp add: sink_nodes_def)
next
  case (Cons n names)
  let ?m = "u (map node_name (tree_nodes tree)) n"
  let ?sd = "sd[i := joinpath tmp n]"
  let ?tree = "tree\<lparr>tree_nodes := tree_nodes tree
                 @ [CompositorNodeOutputFile (400, - 120 * int i) ?m (joinpath tmp n)],
              tree_links := tree_links tree @ [(rl, n, ?m)]\<rparr>"
  from Cons.prems have i: "i < length sd" by simp
  have step: "create_nodes_loop u outputs rl tmp i (n # names) tree sd
                = create_nodes_loop u outputs rl tmp (Suc i) names ?tree ?sd"
    using Cons.prems i by (simp add: Let_def)
  have ih: "create_nodes_loop u outputs rl tmp (Suc i) names ?tree ?sd =
     (?tree\<lparr>tree_nodes := tree_nodes ?tree
               @ sink_nodes tmp (Suc i) names
                   (stored_names u (map node_name (tree_nodes ?tree)) names),
           tree_links := tree_links ?tree
               @ map (\<lambda>(n, m). (rl, n, m))
                   (zip names (stored_names u (map node_name (tree_nodes ?tree)) names))\<rparr>,
      Inr (take (Suc i) ?sd @ map (joinpath tmp) names @ drop (Suc i + length names) ?sd))"
    using Cons.prems by (intro Cons.IH) simp_all
  have t: "take (Suc i) ?sd = take i sd @ [joinpath tmp n]"
    using i by (simp add: take_Suc_conv_app_nth)
  have d: "drop (Suc i + length names) ?sd = drop (i + length (n # names)) sd"
    by simp
  have nm: "map node_name (tree_nodes ?tree) = map node_name (tree_nodes tree) @ [?m]"
    by simp
  show ?case
    unfolding step ih t d nm by (simp add: sink_nodes_Cons)
qed

lemma stored_names_free:
  assumes "\<forall>taken n. n \<notin> set taken \<longrightarrow> u taken n = n"
    and "distinct names" and "set names \<inter> set taken = {}"
  shows "stored_names u taken names = names"
  using assms(2,3)
proof (induction names arbitrary: taken)
  case Nil
  show ?case by simp
next
  case (Cons n names)
  have n: "u taken n = n" using assms(1) Cons.prems(2) by simp
  have "stored_names u (taken @ [n]) names = names"
    using Cons.prems by (intro Cons.IH) auto
  then show ?case by (simp add: n)
qed

lemma create_nodes_ok:
  assumes "w_node_tree w = Some tree" and "set names \<subseteq> set (w_passes w)"
  shows "create_nodes u w tmp names =
     (w\<lparr>w_node_tree := Some
          \<lparr>tree_nodes = CompositorNodeRLayers (0, 0) (u [] ''RenderLayers'')
             # sink_nodes tmp 0 names (stored_names u [u [] ''RenderLayers''] names),
           tree_links =
             filter (\<lambda>(src, out, snk). src \<notin> node_name ` set (tree_nodes tree)
                                     \<and> snk \<notin> node_name ` set (tree_nodes tree)) (tree_links tree)
             @ map (\<lambda>(n, m). (u [] ''RenderLayers'', n, m))
                 (zip names (stored_names u [u [] ''RenderLayers''] names))\<rparr>\<rparr>,
      Inr (map (joinpath tmp) names))"
proof -
  let ?rl = "u [] ''RenderLayers''"
  let ?t1 = "fold nodes_remove (tree_nodes tree) tree"
  let ?t2 = "?t1\<lparr>tree_nodes := tree_nodes ?t1 @ [CompositorNodeRLayers (0, 0) ?rl]\<rparr>"
  have n: "filter (\<lambda>m. node_name m \<notin> node_name ` set (tree_nodes tree)) (tree_nodes tree) = []"
    by (simp add: filter_empty_conv)
  have n1: "tree_nodes ?t1 = []"
    by (simp add: fold_nodes_remove n)
  have l1: "tree_links ?t1 =
      filter (\<lambda>(src, out, snk). src \<notin> node_name ` set (tree_nodes tree)
                               \<and> snk \<notin> node_name ` set (tree_nodes tree)) (tree_links tree)"
    by (simp add: fold_nodes_remove)
  have loop: "create_nodes_loop u (w_passes w) ?rl tmp 0 names ?t2 (replicate (length names) []) =
     (?t2\<lparr>tree_nodes := tree_nodes ?t2
               @ sink_nodes tmp 0 names (stored_names u (map node_name (tree_nodes ?t2)) names),
           tree_links := tree_links ?t2
               @ map (\<lambda>(n, m). (?rl, n, m))
                   (zip names (stored_names u (map node_name (tree_nodes ?t2)) names))\<rparr>,
      Inr (take 0 (replicate (length names) []) @ map (joinpath tmp) names
            @ drop (0 + length names) (replicate (length names) [])))"
    using assms(2) by (intro create_nodes_loop_ok) simp_all
  have nm: "map node_name (tree_nodes ?t2) = [?rl]"
    by (simp add: n1)
  have "create_nodes u w tmp names =
     (case create_nodes_loop u (w_passes w) ?rl tmp 0 names ?t2 (replicate (length names) []) of
        (tree3, r) \<Rightarrow> (w\<lparr>w_node_tree := Some tree3\<rparr>, r))"
    by (simp add: create_nodes_def assms(1) Let_def n1)
  then show ?thesis
    unfolding loop nm by (simp add: n1 l1)
qed

lemma distinct_joinpath: "distinct names \<Longrightarrow> distinct (map (joinpath tmp) names)"
  by (simp add: distinct_map joinpath_def inj_on_def)

text \<open>
  C7, as the claim states it, fails. \<open>create_nodes\<close> does not touch the file system: the
  path it returns for \<open>Depth\<close> is no directory when none existed before. A layer name
  that is not an output of the source node makes it raise \<open>KeyError\<close>. A layer name
  given twice gives the same path twice. In a scene without node tree it raises
  \<open>AttributeError\<close>.
\<close>

theorem create_nodes_staging_table_counterexample:
  "snd (create_nodes numbered_name example_scene [''tmp''] [''Depth''])
     = Inr [[''tmp'', ''Depth'']]
   \<and> \<not> is_dir (w_fs (fst (create_nodes numbered_name example_scene [''tmp''] [''Depth''])))
         [''tmp'', ''Depth'']
   \<and> snd (create_nodes numbered_name example_scene [''tmp''] [''Mist'']) = Inl KeyError
   \<and> snd (create_nodes numbered_name example_scene [''tmp''] [''Depth'', ''Depth''])
       = Inr [[''tmp'', ''Depth''], [''tmp'', ''Depth'']]
   \<and> create_nodes numbered_name empty_world [''tmp''] [''Depth'']
       = (empty_world, Inl AttributeError)"
  by (simp add: create_nodes_def example_scene_def empty_world_def nodes_remove_def
        numbered_name_def joinpath_def is_dir_def Let_def)

text \<open>
  C7, amended. In a scene that has a node tree, for every staging root and every sequence
  of layer names that are all outputs of the source node, \<open>create_nodes\<close> removes every
  node the tree had (and the links that start or end at one of them), creates the source
  node and, for each layer in order, one sink node bound to \<open>staging_root/layer\<close> and
  linked from the output of that name, and returns these paths, one per layer, in input
  order; the nodes carry the names the host stores for \<open>RenderLayers\<close> and for the layer
  names, and the file system is unchanged. When the host keeps a name that is free, the
  layer names are pairwise distinct and none of them is \<open>RenderLayers\<close>, the nodes are
  named as requested and the paths are pairwise distinct as sequences of parts.
\<close>

theorem create_nodes_staging_table:
  "(w_node_tree w = Some tree \<and> set names \<subseteq> set (w_passes w) \<longrightarrow>
      create_nodes u w tmp names =
        (w\<lparr>w_node_tree := Some
             \<lparr>tree_nodes = CompositorNodeRLayers (0, 0) (u [] ''RenderLayers'')
                # sink_nodes tmp 0 names (stored_names u [u [] ''RenderLayers''] names),
              tree_links =
                filter (\<lambda>(src, out, snk). src \<notin> node_name ` set (tree_nodes tree)
                                        \<and> snk \<notin> node_name ` set (tree_nodes tree))
                  (tree_links tree)
                @ map (\<lambda>(n, m). (u [] ''RenderLayers'', n, m))
                    (zip names (stored_names u [u [] ''RenderLayers''] names))\<rparr>\<rparr>,
         Inr (map (joinpath tmp) names))
      \<and> w_fs (fst (create_nodes u w tmp names)) = w_fs w)
   \<and> (w_node_tree w = Some tree \<and> set names \<subseteq> set (w_passes w)
       \<and> (\<forall>taken n. n \<notin> set taken \<longrightarrow> u taken n = n)
       \<and> distinct names \<and> ''RenderLayers'' \<notin> set names \<longrightarrow>
      create_nodes u w tmp names =
        (w\<lparr>w_node_tree := Some
             \<lparr>tree_nodes = CompositorNodeRLayers (0, 0) ''RenderLayers''
                # sink_nodes tmp 0 names names,
              tree_links =
                filter (\<lambda>(src, out, snk). src \<notin> node_name ` set (tree_nodes tree)
                                        \<and> snk \<notin> node_name ` set (tree_nodes tree))
                  (tree_links tree)
                @ map (\<lambda>n. (''RenderLayers'', n, n)) names\<rparr>\<rparr>,
         Inr (map (joinpath tmp) names))
      \<and> distinct (map (joinpath tmp) names))"
proof (intro conjI impI)
  assume a: "w_node_tree w = Some tree \<and> set names \<subseteq> set (w_passes w)"
  then show g: "create_nodes u w tmp names =
        (w\<lparr>w_node_tree := Some
             \<lparr>tree_nodes = CompositorNodeRLayers (0, 0) (u [] ''RenderLayers'')
                # sink_nodes tmp 0 names (stored_names u [u [] ''RenderLayers''] names),
              tree_links =
                filter (\<lambda>(src, out, snk). src \<notin> node_name ` set (tree_nodes tree)
                                        \<and> snk \<notin> node_name ` set (tree_nodes tree))
                  (tree_links tree)
                @ map (\<lambda>(n, m). (u [] ''RenderLayers'', n, m))
                    (zip names (stored_names u [u [] ''RenderLayers''] names))\<rparr>\<rparr>,
         Inr (map (joinpath tmp) names))"
    by (intro create_nodes_ok) simp_all
  show "w_fs (fst (create_nodes u w tmp names)) = w_fs w"
    unfolding g by simp
next
  assume a: "w_node_tree w = Some tree \<and> set names \<subseteq> set (w_passes w)
       \<and> (\<forall>taken n. n \<notin> set taken \<longrightarrow> u taken n = n)
       \<and> distinct names \<and> ''RenderLayers'' \<notin> set names"
  then have rl: "u [] ''RenderLayers'' = ''RenderLayers''" by simp
  have st: "stored_names u [''RenderLayers''] names = names"
    using a by (intro stored_names_free) auto
  have z: "map (\<lambda>(n, m). (''RenderLayers'', n, m)) (zip names names)
             = map (\<lambda>n. (''RenderLayers'', n, n)) names"
    by (simp add: zip_same_conv_map)
  from a have "create_nodes u w tmp names =
        (w\<lparr>w_node_tree := Some
             \<lparr>tree_nodes = CompositorNodeRLayers (0, 0) (u [] ''RenderLayers'')
                # sink_nodes tmp 0 names (stored_names u [u [] ''RenderLayers''] names),
              tree_links =
                filter (\<lambda>(src, out, snk). src \<notin> node_name ` set (tree_nodes tree)
                                        \<and> snk \<notin> node_name ` set (tree_nodes tree))
                  (tree_links tree)
                @ map (\<lambda>(n, m). (u [] ''RenderLayers'', n, m))
                    (zip names (stored_names u [u [] ''RenderLayers''] names))\<rparr>\<rparr>,
         Inr (map (joinpath tmp) names))"
    by (intro create_nodes_ok) simp_all
  then show "create_nodes u w tmp names =
        (w\<lparr>w_node_tree := Some
             \<lparr>tree_nodes = CompositorNodeRLayers (0, 0) ''RenderLayers''
                # sink_nodes tmp 0 names names,
              tree_links =
                filter (\<lambda>(src, out, snk). src \<notin> node_name ` set (tree_nodes tree)
                                        \<and> snk \<notin> node_name ` set (tree_nodes tree))
                  (tree_links tree)
                @ map (\<lambda>n. (''RenderLayers'', n, n)) names\<rparr>\<rparr>,
         Inr (map (joinpath tmp) names))"
    unfolding rl st z .
  show "distinct (map (joinpath tmp) names)"
    using a by (intro distinct_joinpath) simp
qed

theorem create_nodes_staging_table_witness:
  "w_node_tree example_scene = Some
       \<lparr>tree_nodes = [CompositorNodeRLayers (0, 0) ''Render Layers'',
                      CompositorNodeOutputFile (300, 0) ''File Output'' [''old'']],
        tree_links = [(''Render Layers'', ''Image'', ''File Output'')]\<rparr>
   \<and> set [''Depth'', ''Normal''] \<subseteq> set (w_passes example_scene)
   \<and> distinct [''Depth'', ''Normal'']
   \<and> ''RenderLayers'' \<notin> set [''Depth'', ''Normal'']
   \<and> create_nodes numbered_name example_scene [''tmp''] [''Depth'', ''Normal''] =
       (example_scene
          \<lparr>w_node_tree := Some
             \<lparr>tree_nodes = [CompositorNodeRLayers (0, 0) ''RenderLayers'',
                       CompositorNodeOutputFile (400, 0) ''Depth'' [''tmp'', ''Depth''],
                       CompositorNodeOutputFile (400, - 120) ''Normal'' [''tmp'', ''Normal'']],
              tree_links = [(''RenderLayers'', ''Depth'', ''Depth''),
                       (''RenderLayers'', ''Normal'', ''Normal'')]\<rparr>\<rparr>,
        Inr [[''tmp'', ''Depth''], [''tmp'', ''Normal'']])
   \<and> w_fs (fst (create_nodes numbered_name example_scene [''tmp''] [''Depth'', ''Normal'']))
       = w_fs example_scene
   \<and> distinct [[''tmp'', ''Depth''], [''tmp'', ''Normal'']]"
proof -
  let ?tree = "\<lparr>tree_nodes = [CompositorNodeRLayers (0, 0) ''Render Layers'',
                      CompositorNodeOutputFile (300, 0) ''File Output'' [''old'']],
        tree_links = [(''Render Layers'', ''Image'', ''File Output'')]\<rparr>"
  let ?names = "[''Depth'', ''Normal'']"
  have h1: "w_node_tree example_scene = Some ?tree"
    by (simp add: example_scene_def)
  have h2: "set ?names \<subseteq> set (w_passes example_scene)"
    by (simp add: example_scene_def)
  have h3: "\<forall>taken n. n \<notin> set taken \<longrightarrow> numbered_name taken n = n"
    by (simp add: numbered_name_def)
  have h4: "distinct ?names" "''RenderLayers'' \<notin> set ?names" by simp_all
  note t = create_nodes_staging_table [of example_scene ?tree ?names numbered_name "[''tmp'']"]
  from t h1 h2 have fs: "w_fs (fst (create_nodes numbered_name example_scene [''tmp''] ?names))
       = w_fs example_scene"
    by blast
  from t h1 h2 h3 h4
  have "create_nodes numbered_name example_scene [''tmp''] ?names =
        (example_scene\<lparr>w_node_tree := Some
             \<lparr>tree_nodes = CompositorNodeRLayers (0, 0) ''RenderLayers''
                # sink_nodes [''tmp''] 0 ?names ?names,
              tree_links =
                filter (\<lambda>(src, out, snk). src \<notin> node_name ` set (tree_nodes ?tree)
                                        \<and> snk \<notin> node_name ` set (tree_nodes ?tree))
                  (tree_links ?tree)
                @ map (\<lambda>n. (''RenderLayers'', n, n)) ?names\<rparr>\<rparr>,
         Inr (map (joinpath [''tmp'']) ?names))"
    by blast
  then have "create_nodes numbered_name example_scene [''tmp''] ?names =
       (example_scene
          \<lparr>w_node_tree := Some
             \<lparr>tree_nodes = [CompositorNodeRLayers (0, 0) ''RenderLayers'',
                       CompositorNodeOutputFile (400, 0) ''Depth'' [''tmp'', ''Depth''],
                       CompositorNodeOutputFile (400, - 120) ''Normal'' [''tmp'', ''Normal'']],
              tree_links = [(''RenderLayers'', ''Depth'', ''Depth''),
                       (''RenderLayers'', ''Normal'', ''Normal'')]\<rparr>\<rparr>,
        Inr [[''tmp'', ''Depth''], [''tmp'', ''Normal'']])"
    by (simp add: sink_nodes_def joinpath_def upt_rec)
  then show ?thesis
    using h1 h2 fs by simp
qed


section \<open>Reconciliation\<close>

lemmas reconcile_eval =
  move_render_passes_def path_stem_def path_name_def path_parent_def path_suffix_def
  glob_star_dot_star_def listdir_def new_filepath_def with_stem_def with_name_def
  with_suffix_def rename_def is_dir_def is_file_def Let_def

lemma rfind_absent: "c \<notin> set s \<Longrightarrow> rfind s c = - 1"
  by (induction s) (auto simp: Let_def)

lemma suffix_no_dot: "CHR ''.'' \<notin> set (path_name p) \<Longrightarrow> path_suffix p = []"
  by (simp add: path_suffix_def Let_def rfind_absent)

lemma stem_no_dot: "CHR ''.'' \<notin> set (path_name p) \<Longrightarrow> path_stem p = path_name p"
  by (simp add: path_stem_def Let_def rfind_absent)

lemma path_name_joinpath: "path_name (joinpath p s) = s"
  by (simp add: path_name_def joinpath_def)

lemma butlast_joinpath: "butlast (joinpath p s) = p"
  by (simp add: joinpath_def)

lemma with_name_joinpath: "n \<noteq> [] \<Longrightarrow> with_name (joinpath p n) m = Inr (joinpath p m)"
  by (simp add: with_name_def path_name_joinpath butlast_joinpath) (simp add: joinpath_def)

lemma with_suffix_joinpath:
  assumes "n \<noteq> []" and "CHR ''.'' \<notin> set n"
  shows "with_suffix (joinpath p n) sfx = Inr (joinpath p (n @ sfx))"
proof -
  have "path_suffix (joinpath p n) = []"
    using assms(2) by (simp add: suffix_no_dot path_name_joinpath)
  then show ?thesis
    using assms(1)
    by (simp add: with_suffix_def Let_def path_name_joinpath butlast_joinpath)
       (simp add: joinpath_def)
qed

lemma new_filepath_plain:
  assumes "rid \<noteq> []" and "CHR ''.'' \<notin> set rid" and "CHR ''.'' \<notin> set layer"
  shows "new_filepath (joinpath output_dir rid) rid layer
           = Inr (joinpath output_dir (rid @ ''_'' @ layer @ ''.jpg''))"
proof -
  let ?s = "rid @ ''_'' @ layer"
  have s: "path_suffix (joinpath output_dir rid) = []"
    using assms(2) by (simp add: suffix_no_dot path_name_joinpath)
  have a: "with_stem (joinpath output_dir rid) ?s = Inr (joinpath output_dir ?s)"
    using assms(1) by (simp add: with_stem_def s with_name_joinpath)
  have b: "with_suffix (joinpath output_dir ?s) ''.jpg'' = Inr (joinpath output_dir (?s @ ''.jpg''))"
    using assms by (intro with_suffix_joinpath) simp_all
  show ?thesis
    unfolding new_filepath_def a sum.case b by simp
qed

lemma move_render_passes_loop_append:
  "move_render_passes_loop fs (xs @ ys) out rid =
     (case move_render_passes_loop fs xs out rid of
        (fs', Inl e) \<Rightarrow> (fs', Inl e)
      | (fs', Inr u) \<Rightarrow> move_render_passes_loop fs' ys out rid)"
  by (induction xs arbitrary: fs) (auto simp: Let_def split: list.splits sum.splits prod.splits)

lemma rename_failure_keeps: "rename fs src dst = (fs', Inl e) \<Longrightarrow> fs' = fs"
  by (auto simp: rename_def split: option.splits if_splits)

lemma move_render_passes_loop_failure_keeps:
  "move_render_passes_loop fs [d] out rid = (fs', Inl e) \<Longrightarrow> fs' = fs"
  by (auto simp: Let_def dest: rename_failure_keeps split: list.splits sum.splits prod.splits)

lemma map_of_filter_single:
  assumes "filter P xs = [(f, c)]" and "\<forall>e. fst e = f \<longrightarrow> P e"
  shows "map_of xs f = Some c"
  using assms
proof (induction xs)
  case Nil
  then show ?case by simp
next
  case (Cons x xs)
  then show ?case by (cases x) (auto split: if_splits)
qed

lemma listdir_single_facts:
  assumes "listdir fs d = [(f, c)]"
  shows "f \<noteq> []" and "path_parent f = d" and "(f, c) \<in> set (files fs)"
    and "map_of (files fs) f = Some c" and "is_file fs f"
    and "\<And>e. e \<in> set (files fs) \<Longrightarrow> (fst e = f) = (fst e \<noteq> [] \<and> path_parent (fst e) = d)"
proof -
  have m: "(f, c) \<in> set (filter (\<lambda>e. fst e \<noteq> [] \<and> path_parent (fst e) = d) (files fs))"
    using assms by (simp add: listdir_def)
  then show a: "f \<noteq> []" and b: "path_parent f = d" and c: "(f, c) \<in> set (files fs)"
    by auto
  show "map_of (files fs) f = Some c"
    using assms a b unfolding listdir_def by (intro map_of_filter_single) auto
  show "is_file fs f" using c by (force simp: is_file_def)
  fix e assume e: "e \<in> set (files fs)"
  show "(fst e = f) = (fst e \<noteq> [] \<and> path_parent (fst e) = d)"
  proof
    assume "fst e = f" then show "fst e \<noteq> [] \<and> path_parent (fst e) = d" using a b by simp
  next
    assume "fst e \<noteq> [] \<and> path_parent (fst e) = d"
    with e have "e \<in> set (listdir fs d)" by (simp add: listdir_def)
    then show "fst e = f" using assms by simp
  qed
qed

lemma move_render_passes_step:
  assumes L: "listdir fs d = [(f, c)]" and dot: "CHR ''.'' \<in> set (path_name f)"
    and T: "new_filepath out rid (path_stem d) = Inr t"
    and D: "is_dir fs (path_parent t)" "\<not> is_dir fs t" "\<not> is_file fs t"
  shows "move_render_passes_loop fs (d # ds) out rid =
     move_render_passes_loop
       (fs\<lparr>files := filter (\<lambda>e. \<not> (fst e \<noteq> [] \<and> path_parent (fst e) = d)) (files fs)
                        @ [(t, c)]\<rparr>) ds out rid"
proof -
  note F = listdir_single_facts [OF L]
  have g: "glob_star_dot_star fs d = [f]"
    using dot by (simp add: glob_star_dot_star_def L)
  have ne: "f \<noteq> t" using F(5) D(3) by auto
  have flt: "filter (\<lambda>e. fst e \<noteq> f \<and> fst e \<noteq> t) (files fs)
           = filter (\<lambda>e. \<not> (fst e \<noteq> [] \<and> path_parent (fst e) = d)) (files fs)"
  proof (rule filter_cong [OF refl])
    fix e assume e: "e \<in> set (files fs)"
    then have "fst e \<noteq> t" using D(3) by (auto simp: is_file_def)
    then show "(fst e \<noteq> f \<and> fst e \<noteq> t) = (\<not> (fst e \<noteq> [] \<and> path_parent (fst e) = d))"
      using F(6) [OF e] by simp
  qed
  have r: "rename fs f t =
     (fs\<lparr>files := filter (\<lambda>e. \<not> (fst e \<noteq> [] \<and> path_parent (fst e) = d)) (files fs)
                        @ [(t, c)]\<rparr>, Inr ())"
    using ne D by (simp add: rename_def F(4) flt)
  show ?thesis
    by (simp add: g Let_def F(2) T r)
qed

lemma move_render_passes_loop_ok:
  assumes "\<forall>d\<in>set ds. new_filepath out rid (path_stem d) = Inr (tgt d)"
    and "distinct (map tgt ds)"
    and "\<forall>d\<in>set ds. \<exists>f c. listdir fs d = [(f, c)] \<and> CHR ''.'' \<in> set (path_name f)"
    and "\<forall>d\<in>set ds. is_dir fs (path_parent (tgt d)) \<and> \<not> is_dir fs (tgt d) \<and> \<not> is_file fs (tgt d)"
    and "\<forall>d\<in>set ds. path_parent (tgt d) \<notin> set ds"
  shows "move_render_passes_loop fs ds out rid =
     (fs\<lparr>files := filter (\<lambda>e. \<not> in_dirs ds e) (files fs)
                      @ map (\<lambda>d. (tgt d, snd (hd (listdir fs d)))) ds\<rparr>, Inr ())"
  using assms
proof (induction ds arbitrary: fs)
  case Nil
  show ?case by (simp add: in_dirs_def)
next
  case (Cons d ds)
  from Cons.prems(3) obtain f c where L: "listdir fs d = [(f, c)]"
    and dot: "CHR ''.'' \<in> set (path_name f)" by auto
  let ?t = "tgt d"
  let ?fs1 = "fs\<lparr>files := filter (\<lambda>e. \<not> (fst e \<noteq> [] \<and> path_parent (fst e) = d)) (files fs)
                        @ [(?t, c)]\<rparr>"
  have T: "new_filepath out rid (path_stem d) = Inr ?t" using Cons.prems(1) by simp
  have D: "is_dir fs (path_parent ?t)" "\<not> is_dir fs ?t" "\<not> is_file fs ?t"
    using Cons.prems(4) by simp_all
  have step: "move_render_passes_loop fs (d # ds) out rid = move_render_passes_loop ?fs1 ds out rid"
    using L dot T D by (rule move_render_passes_step)
  have dn: "d \<notin> set ds"
    using Cons.prems(2) by (auto simp: image_iff)
  have pt: "path_parent ?t \<notin> set ds" "path_parent ?t \<noteq> d"
    using Cons.prems(5) by simp_all
  have ld: "listdir ?fs1 d' = listdir fs d'" if "d' \<in> set ds" for d'
  proof -
    have "d' \<noteq> d" using that dn by auto
    moreover have "path_parent ?t \<noteq> d'" using that pt(1) by auto
    ultimately show ?thesis
      by (auto simp: listdir_def intro!: filter_cong)
  qed
  have ih: "move_render_passes_loop ?fs1 ds out rid =
     (?fs1\<lparr>files := filter (\<lambda>e. \<not> in_dirs ds e) (files ?fs1)
                      @ map (\<lambda>d. (tgt d, snd (hd (listdir ?fs1 d)))) ds\<rparr>, Inr ())"
  proof (rule Cons.IH)
    show "\<forall>d\<in>set ds. new_filepath out rid (path_stem d) = Inr (tgt d)"
      using Cons.prems(1) by simp
    show "distinct (map tgt ds)" using Cons.prems(2) by simp
    show "\<forall>d\<in>set ds. \<exists>f c. listdir ?fs1 d = [(f, c)] \<and> CHR ''.'' \<in> set (path_name f)"
      using Cons.prems(3) ld by simp
    show "\<forall>d\<in>set ds. path_parent (tgt d) \<notin> set ds"
      using Cons.prems(5) by simp
    show "\<forall>d\<in>set ds. is_dir ?fs1 (path_parent (tgt d)) \<and> \<not> is_dir ?fs1 (tgt d)
            \<and> \<not> is_file ?fs1 (tgt d)"
    proof
      fix d' assume d': "d' \<in> set ds"
      have "tgt d' \<noteq> ?t" using Cons.prems(2) d' by (auto simp: image_iff)
      moreover have "\<not> is_file fs (tgt d')" using Cons.prems(4) d' by simp
      ultimately have "\<not> is_file ?fs1 (tgt d')"
        by (auto simp: is_file_def)
      then show "is_dir ?fs1 (path_parent (tgt d')) \<and> \<not> is_dir ?fs1 (tgt d')
            \<and> \<not> is_file ?fs1 (tgt d')"
        using Cons.prems(4) d' by (simp add: is_dir_def)
    qed
  qed
  have f1: "filter (\<lambda>e. \<not> in_dirs ds e) (files ?fs1)
          = filter (\<lambda>e. \<not> in_dirs (d # ds) e) (files fs) @ [(?t, c)]"
  proof -
    have "filter (\<lambda>e. \<not> in_dirs ds e)
            (filter (\<lambda>e. \<not> (fst e \<noteq> [] \<and> path_parent (fst e) = d)) (files fs))
          = filter (\<lambda>e. \<not> in_dirs (d # ds) e) (files fs)"
      unfolding filter_filter by (rule filter_cong [OF refl]) (auto simp: in_dirs_def)
    moreover have "\<not> in_dirs ds (?t, c)" using pt(1) by (simp add: in_dirs_def)
    ultimately show ?thesis by simp
  qed
  have m1: "map (\<lambda>d. (tgt d, snd (hd (listdir ?fs1 d)))) ds
          = map (\<lambda>d. (tgt d, snd (hd (listdir fs d)))) ds"
    using ld by simp
  have c: "snd (hd (listdir fs d)) = c" using L by simp
  show ?case
    unfolding step ih f1 m1 by (simp add: c)
qed

lemma path_parent_joinpath: "path_parent (joinpath p s) = p"
  by (simp add: path_parent_def joinpath_def)

lemma listdir_files_update:
  "listdir (fs\<lparr>files := xs\<rparr>) d = filter (\<lambda>e. fst e \<noteq> [] \<and> path_parent (fst e) = d) xs"
  by (simp add: listdir_def)

text \<open>
  C2, as the claim states it, fails: the target name always ends in \<open>.jpg\<close>. The single
  staged file \<open>Image0001.png\<close> ends at \<open>out/A_Depth.jpg\<close> and nothing is at
  \<open>out/A_Depth.png\<close>. A single staged file whose name has no dot is not seen by the glob
  \<open>*.*\<close>, and the call raises \<open>IndexError\<close>.
\<close>

theorem move_render_passes_drains_counterexample:
  "move_render_passes (staged True) [[''tmp'', ''Depth'']] [''out'', ''A'']
     = ((staged True)\<lparr>files := [([''out'', ''A_Depth.jpg''], ''depth of A'')]\<rparr>, Inr ())
   \<and> \<not> is_file (fst (move_render_passes (staged True) [[''tmp'', ''Depth'']] [''out'', ''A'']))
         [''out'', ''A_Depth.png'']
   \<and> move_render_passes (staged_plain True) [[''tmp'', ''Depth'']] [''out'', ''A'']
     = (staged_plain True, Inl IndexError)"
  by (simp add: reconcile_eval staged_def staged_plain_def)

text \<open>
  C2, amended: let every staging directory hold exactly one file, whose name contains a
  dot; let the record id be non-empty, the record id and the names of the staging
  directories (the layer names) contain no dot, the layer names be pairwise distinct, the
  output directory exist and be no staging directory, and no target path exist. Then
  \<open>move_render_passes\<close> raises nothing, the content of each staged file is afterwards at
  \<open>output_dir/<record_id>_<layer_name>.jpg\<close>, whatever the extension of the staged file
  was, and every staging directory is empty.
\<close>

theorem move_render_passes_drains:
  assumes rid: "rid \<noteq> []" "CHR ''.'' \<notin> set rid"
    and lay: "\<forall>d\<in>set ds. CHR ''.'' \<notin> set (path_name d)"
    and dis: "distinct (map path_name ds)"
    and one: "\<forall>d\<in>set ds. \<exists>f c. listdir fs d = [(f, c)] \<and> CHR ''.'' \<in> set (path_name f)"
    and out: "is_dir fs output_dir" "output_dir \<notin> set ds"
    and new: "\<forall>d\<in>set ds.
               \<not> is_dir fs (joinpath output_dir (rid @ ''_'' @ path_name d @ ''.jpg''))
               \<and> \<not> is_file fs (joinpath output_dir (rid @ ''_'' @ path_name d @ ''.jpg''))"
  shows "\<exists>fs'. move_render_passes fs ds (joinpath output_dir rid) = (fs', Inr ())
           \<and> dirs fs' = dirs fs
           \<and> (\<forall>d\<in>set ds. listdir fs' d = []
                 \<and> map_of (files fs') (joinpath output_dir (rid @ ''_'' @ path_name d @ ''.jpg''))
                     = Some (snd (hd (listdir fs d))))"
proof -
  let ?tgt = "\<lambda>d. joinpath output_dir (rid @ ''_'' @ path_name d @ ''.jpg'')"
  let ?out = "joinpath output_dir rid"
  let ?new = "map (\<lambda>d. (?tgt d, snd (hd (listdir fs d)))) ds"
  let ?old = "filter (\<lambda>e. \<not> in_dirs ds e) (files fs)"
  let ?fs' = "fs\<lparr>files := ?old @ ?new\<rparr>"
  have st: "path_stem ?out = rid"
    using rid(2) by (simp add: stem_no_dot path_name_joinpath)
  have inj: "inj_on ?tgt (set ds)"
  proof (rule inj_onI)
    fix a b assume "a \<in> set ds" "b \<in> set ds" "?tgt a = ?tgt b"
    then have "path_name a = path_name b" by (simp add: joinpath_def)
    then show "a = b" using dis \<open>a \<in> set ds\<close> \<open>b \<in> set ds\<close>
      by (auto simp: distinct_map inj_on_def)
  qed
  have dds: "distinct ds" using dis by (simp add: distinct_map)
  have dt: "distinct (map ?tgt ds)"
    using dds inj by (simp add: distinct_map)
  have h1: "\<forall>d\<in>set ds. new_filepath ?out rid (path_stem d) = Inr (?tgt d)"
  proof
    fix d assume d: "d \<in> set ds"
    then have n: "CHR ''.'' \<notin> set (path_name d)" using lay by simp
    then have "path_stem d = path_name d" by (rule stem_no_dot)
    then show "new_filepath ?out rid (path_stem d) = Inr (?tgt d)"
      using rid n by (simp add: new_filepath_plain)
  qed
  have h4: "\<forall>d\<in>set ds. is_dir fs (path_parent (?tgt d)) \<and> \<not> is_dir fs (?tgt d)
              \<and> \<not> is_file fs (?tgt d)"
    using out(1) new by (simp add: path_parent_joinpath)
  have h5: "\<forall>d\<in>set ds. path_parent (?tgt d) \<notin> set ds"
    using out(2) by (simp add: path_parent_joinpath)
  have run: "move_render_passes_loop fs ds ?out rid = (?fs', Inr ())"
    using h1 dt one h4 h5 by (rule move_render_passes_loop_ok)
  have res: "move_render_passes fs ds ?out = (?fs', Inr ())"
    by (simp add: move_render_passes_def Let_def st run)
  have post: "listdir ?fs' d = []
        \<and> map_of (files ?fs') (?tgt d) = Some (snd (hd (listdir fs d)))"
    if d: "d \<in> set ds" for d
  proof
    have a: "filter (\<lambda>e. fst e \<noteq> [] \<and> path_parent (fst e) = d) ?old = []"
      using d by (auto simp: filter_empty_conv in_dirs_def)
    have b: "filter (\<lambda>e. fst e \<noteq> [] \<and> path_parent (fst e) = d) ?new = []"
      using d out(2) by (auto simp: filter_empty_conv path_parent_joinpath)
    have "listdir ?fs' d = filter (\<lambda>e. fst e \<noteq> [] \<and> path_parent (fst e) = d) (?old @ ?new)"
      by (rule listdir_files_update)
    also have "\<dots> = []"
      unfolding filter_append a b by simp
    finally show "listdir ?fs' d = []" .
    have "?tgt d \<notin> fst ` set ?old"
      using new d by (auto simp: is_file_def)
    then have o: "map_of ?old (?tgt d) = None"
      by (simp add: map_of_eq_None_iff)
    have "distinct (map fst ?new)"
      using dt by (simp add: comp_def)
    moreover have "(?tgt d, snd (hd (listdir fs d))) \<in> set ?new"
      using d by auto
    ultimately have n: "map_of ?new (?tgt d) = Some (snd (hd (listdir fs d)))"
      by (rule map_of_is_SomeI)
    have "map_of (?old @ ?new) (?tgt d) = Some (snd (hd (listdir fs d)))"
      unfolding map_of_append map_add_def o n by simp
    then show "map_of (files ?fs') (?tgt d) = Some (snd (hd (listdir fs d)))"
      by simp
  qed
  show ?thesis
    using res post by (intro exI [of _ ?fs']) simp
qed

theorem move_render_passes_drains_witness:
  "''A'' \<noteq> [] \<and> CHR ''.'' \<notin> set ''A''
   \<and> CHR ''.'' \<notin> set (path_name [''tmp'', ''Depth''])
   \<and> CHR ''.'' \<notin> set (path_name [''tmp'', ''Normal''])
   \<and> distinct (map path_name [[''tmp'', ''Depth''], [''tmp'', ''Normal'']])
   \<and> listdir (staged_both True) [''tmp'', ''Depth'']
       = [([''tmp'', ''Depth'', ''Image0001.png''], ''depth of A'')]
   \<and> listdir (staged_both True) [''tmp'', ''Normal'']
       = [([''tmp'', ''Normal'', ''Image0001.exr''], ''normal of A'')]
   \<and> is_dir (staged_both True) [''out'']
   \<and> [''out''] \<notin> set [[''tmp'', ''Depth''], [''tmp'', ''Normal'']]
   \<and> (\<exists>fs'. move_render_passes (staged_both True) [[''tmp'', ''Depth''], [''tmp'', ''Normal'']]
                 (joinpath [''out''] ''A'') = (fs', Inr ())
          \<and> dirs fs' = dirs (staged_both True)
          \<and> listdir fs' [''tmp'', ''Depth''] = []
          \<and> listdir fs' [''tmp'', ''Normal''] = []
          \<and> map_of (files fs') [''out'', ''A_Depth.jpg''] = Some ''depth of A''
          \<and> map_of (files fs') [''out'', ''A_Normal.jpg''] = Some ''normal of A'')"
proof -
  let ?ds = "[[''tmp'', ''Depth''], [''tmp'', ''Normal'']]"
  let ?fs = "staged_both True"
  have l: "listdir ?fs [''tmp'', ''Depth''] = [([''tmp'', ''Depth'', ''Image0001.png''], ''depth of A'')]"
    "listdir ?fs [''tmp'', ''Normal''] = [([''tmp'', ''Normal'', ''Image0001.exr''], ''normal of A'')]"
    by (simp_all add: listdir_def staged_both_def path_parent_def)
  have h1: "''A'' \<noteq> []" "CHR ''.'' \<notin> set ''A''" by simp_all
  have h2: "\<forall>d\<in>set ?ds. CHR ''.'' \<notin> set (path_name d)" by (simp add: path_name_def)
  have h3: "distinct (map path_name ?ds)" by (simp add: path_name_def)
  have h4: "\<forall>d\<in>set ?ds. \<exists>f c. listdir ?fs d = [(f, c)] \<and> CHR ''.'' \<in> set (path_name f)"
    by (simp add: l path_name_def)
  have h5: "is_dir ?fs [''out'']" "[''out''] \<notin> set ?ds"
    by (simp_all add: is_dir_def staged_both_def)
  have h6: "\<forall>d\<in>set ?ds.
               \<not> is_dir ?fs (joinpath [''out''] (''A'' @ ''_'' @ path_name d @ ''.jpg''))
               \<and> \<not> is_file ?fs (joinpath [''out''] (''A'' @ ''_'' @ path_name d @ ''.jpg''))"
    by (simp add: is_dir_def is_file_def staged_both_def joinpath_def path_name_def)
  from move_render_passes_drains [OF h1 h2 h3 h4 h5 h6]
  obtain fs' where r: "move_render_passes ?fs ?ds (joinpath [''out''] ''A'') = (fs', Inr ())"
    "dirs fs' = dirs ?fs"
    "\<forall>d\<in>set ?ds. listdir fs' d = []
       \<and> map_of (files fs') (joinpath [''out''] (''A'' @ ''_'' @ path_name d @ ''.jpg''))
           = Some (snd (hd (listdir ?fs d)))"
    by blast
  from r(3) have p: "listdir fs' [''tmp'', ''Depth''] = []" "listdir fs' [''tmp'', ''Normal''] = []"
    "map_of (files fs') [''out'', ''A_Depth.jpg''] = Some ''depth of A''"
    "map_of (files fs') [''out'', ''A_Normal.jpg''] = Some ''normal of A''"
    by (simp_all add: l joinpath_def path_name_def)
  show ?thesis
    using r(1,2) p l h5 by (simp add: path_name_def)
qed

lemma move_render_passes_append:
  "move_render_passes fs (xs @ ys) out =
     (case move_render_passes fs xs out of
        (fs', Inl e) \<Rightarrow> (fs', Inl e)
      | (fs', Inr u) \<Rightarrow> move_render_passes fs' ys out)"
  by (simp add: move_render_passes_def Let_def move_render_passes_loop_append
        split: prod.splits sum.splits)

lemma glob_member:
  assumes "f \<in> set (glob_star_dot_star fs d)"
  shows "path_parent f = d" and "f \<in> fst ` set (files fs)"
  using assms by (auto simp: glob_star_dot_star_def listdir_def)

lemma move_render_passes_moves_first:
  assumes g: "glob_star_dot_star fs d = f # others"
    and c: "map_of (files fs) f = Some c"
    and t: "new_filepath out (path_stem out) (path_stem d) = Inr t"
    and ok: "f \<noteq> t" "is_dir fs (path_parent t)" "\<not> is_dir fs t" "is_file fs t \<longrightarrow> posix fs"
  shows "move_render_passes fs (d # ds) out =
     move_render_passes
       (fs\<lparr>files := filter (\<lambda>e. fst e \<noteq> f \<and> fst e \<noteq> t) (files fs) @ [(t, c)]\<rparr>) ds out"
proof -
  have "f \<in> set (glob_star_dot_star fs d)" using g by simp
  then have p: "path_parent f = d" by (rule glob_member)
  have r: "rename fs f t =
     (fs\<lparr>files := filter (\<lambda>e. fst e \<noteq> f \<and> fst e \<noteq> t) (files fs) @ [(t, c)]\<rparr>, Inr ())"
    using ok by (auto simp: rename_def c)
  show ?thesis
    by (simp add: move_render_passes_def Let_def g p t r)
qed

lemma move_render_passes_empty_dir:
  assumes "move_render_passes fs ds1 out = (fs1, Inr ())"
    and "glob_star_dot_star fs1 d = []"
  shows "move_render_passes fs (ds1 @ d # ds2) out = (fs1, Inl IndexError)"
  using assms by (simp add: move_render_passes_append) (simp add: move_render_passes_def)

lemma move_render_passes_collision:
  assumes pre: "move_render_passes fs ds1 out = (fs1, Inr ())"
    and g: "glob_star_dot_star fs1 d = f # others"
    and t: "new_filepath out (path_stem out) (path_stem d) = Inr t"
    and ok: "f \<noteq> t" "is_dir fs1 (path_parent t)" "is_file fs1 t \<or> is_dir fs1 t" "\<not> posix fs1"
  shows "move_render_passes fs (ds1 @ d # ds2) out = (fs1, Inl (FileExistsError f t))"
proof -
  have m: "f \<in> set (glob_star_dot_star fs1 d)" using g by simp
  then have p: "path_parent f = d" by (rule glob_member)
  from m have "f \<in> fst ` set (files fs1)" by (rule glob_member)
  then obtain c where c: "map_of (files fs1) f = Some c"
    by (metis map_of_eq_None_iff not_Some_eq)
  have r: "rename fs1 f t = (fs1, Inl (FileExistsError f t))"
    using ok by (auto simp: rename_def c)
  have "move_render_passes fs1 (d # ds2) out = (fs1, Inl (FileExistsError f t))"
    by (simp add: move_render_passes_def Let_def g p t r)
  then show ?thesis
    using pre by (simp add: move_render_passes_append)
qed

text \<open>
  C1, as the claim states it, fails. With two files in the staging directory nothing is
  raised: the first one listed, here a stale one, is moved and the other stays behind.
  On POSIX an existing target is overwritten silently.
\<close>

theorem move_render_passes_failures_counterexample:
  "move_render_passes (staged_two False) [[''tmp'', ''Depth'']] [''out'', ''A'']
     = ((staged_two False)
          \<lparr>files := [([''tmp'', ''Depth'', ''Image0002.jpg''], ''depth of A''),
                      ([''out'', ''A_Depth.jpg''], ''stale depth'')]\<rparr>, Inr ())
   \<and> move_render_passes (staged_taken True) [[''tmp'', ''Depth'']] [''out'', ''A'']
     = ((staged_taken True)\<lparr>files := [([''out'', ''A_Depth.jpg''], ''depth of A'')]\<rparr>, Inr ())"
  by (simp add: reconcile_eval staged_two_def staged_taken_def)

text \<open>
  C1, amended. When a staging directory that \<open>move_render_passes\<close> reaches holds no file
  whose name contains a dot (in particular when it is empty), it fails with \<open>IndexError\<close>
  and leaves the file system as the preceding layers left it. When the directory holds
  one such file or more, it does not fail on that account: the first file listed is
  moved, the others stay, and the loop goes on; a target that is an existing file is
  replaced silently on POSIX. On Windows an existing target makes it fail with
  \<open>FileExistsError\<close>, nothing being overwritten.
\<close>

theorem move_render_passes_failures:
  "(move_render_passes fs before out = (mid, Inr ()) \<and> glob_star_dot_star mid d = [] \<longrightarrow>
      move_render_passes fs (before @ d # after) out = (mid, Inl IndexError))
   \<and> (glob_star_dot_star fs d = f # others \<and> map_of (files fs) f = Some c
       \<and> new_filepath out (path_stem out) (path_stem d) = Inr t
       \<and> f \<noteq> t \<and> is_dir fs (path_parent t) \<and> \<not> is_dir fs t \<and> (is_file fs t \<longrightarrow> posix fs) \<longrightarrow>
      move_render_passes fs (d # ds) out =
        move_render_passes
          (fs\<lparr>files := filter (\<lambda>e. fst e \<noteq> f \<and> fst e \<noteq> t) (files fs) @ [(t, c)]\<rparr>) ds out)
   \<and> (move_render_passes fs before out = (mid, Inr ()) \<and> glob_star_dot_star mid d = f # others
       \<and> new_filepath out (path_stem out) (path_stem d) = Inr t
       \<and> f \<noteq> t \<and> is_dir mid (path_parent t) \<and> (is_file mid t \<or> is_dir mid t) \<and> \<not> posix mid \<longrightarrow>
      move_render_passes fs (before @ d # after) out = (mid, Inl (FileExistsError f t)))"
proof (intro conjI impI)
  assume "move_render_passes fs before out = (mid, Inr ()) \<and> glob_star_dot_star mid d = []"
  then show "move_render_passes fs (before @ d # after) out = (mid, Inl IndexError)"
    by (intro move_render_passes_empty_dir) simp_all
next
  assume "glob_star_dot_star fs d = f # others \<and> map_of (files fs) f = Some c
       \<and> new_filepath out (path_stem out) (path_stem d) = Inr t
       \<and> f \<noteq> t \<and> is_dir fs (path_parent t) \<and> \<not> is_dir fs t \<and> (is_file fs t \<longrightarrow> posix fs)"
  then show "move_render_passes fs (d # ds) out =
        move_render_passes
          (fs\<lparr>files := filter (\<lambda>e. fst e \<noteq> f \<and> fst e \<noteq> t) (files fs) @ [(t, c)]\<rparr>) ds out"
    by (intro move_render_passes_moves_first [where others = others]) simp_all
next
  assume "move_render_passes fs before out = (mid, Inr ()) \<and> glob_star_dot_star mid d = f # others
       \<and> new_filepath out (path_stem out) (path_stem d) = Inr t
       \<and> f \<noteq> t \<and> is_dir mid (path_parent t) \<and> (is_file mid t \<or> is_dir mid t) \<and> \<not> posix mid"
  then show "move_render_passes fs (before @ d # after) out = (mid, Inl (FileExistsError f t))"
    by (intro move_render_passes_collision [where others = others and f = f and t = t]) simp_all
qed

theorem move_render_passes_failures_witness:
  "move_render_passes (staged False) [[''tmp'', ''Depth'']] [''out'', ''A'']
     = ((staged False)\<lparr>files := [([''out'', ''A_Depth.jpg''], ''depth of A'')]\<rparr>, Inr ())
   \<and> glob_star_dot_star ((staged False)\<lparr>files := [([''out'', ''A_Depth.jpg''], ''depth of A'')]\<rparr>)
        [''tmp'', ''Normal''] = []
   \<and> move_render_passes (staged False) [[''tmp'', ''Depth''], [''tmp'', ''Normal'']] [''out'', ''A'']
     = ((staged False)\<lparr>files := [([''out'', ''A_Depth.jpg''], ''depth of A'')]\<rparr>, Inl IndexError)
   \<and> glob_star_dot_star (staged_two False) [''tmp'', ''Depth'']
     = [[''tmp'', ''Depth'', ''Image0001.jpg''], [''tmp'', ''Depth'', ''Image0002.jpg'']]
   \<and> move_render_passes (staged_two False) [[''tmp'', ''Depth'']] [''out'', ''A'']
     = ((staged_two False)
          \<lparr>files := [([''tmp'', ''Depth'', ''Image0002.jpg''], ''depth of A''),
                      ([''out'', ''A_Depth.jpg''], ''stale depth'')]\<rparr>, Inr ())
   \<and> glob_star_dot_star (staged_taken False) [''tmp'', ''Depth'']
     = [[''tmp'', ''Depth'', ''Image0001.jpg'']]
   \<and> is_file (staged_taken False) [''out'', ''A_Depth.jpg'']
   \<and> \<not> posix (staged_taken False)
   \<and> move_render_passes (staged_taken False) [[''tmp'', ''Depth'']] [''out'', ''A'']
     = (staged_taken False,
        Inl (FileExistsError [''tmp'', ''Depth'', ''Image0001.jpg''] [''out'', ''A_Depth.jpg'']))"
proof -
  let ?out = "[''out'', ''A'']"
  let ?d = "[''tmp'', ''Depth'']"
  let ?t = "[''out'', ''A_Depth.jpg'']"
  let ?fs1 = "(staged False)\<lparr>files := [(?t, ''depth of A'')]\<rparr>"
  have t: "new_filepath ?out (path_stem ?out) (path_stem ?d) = Inr ?t"
    by (simp add: reconcile_eval)
  have a1: "move_render_passes (staged False) [?d] ?out = (?fs1, Inr ())"
    by (simp add: reconcile_eval staged_def)
  have a2: "glob_star_dot_star ?fs1 [''tmp'', ''Normal''] = []"
    by (simp add: reconcile_eval staged_def)
  from move_render_passes_failures
         [where fs = "staged False" and before = "[?d]" and out = ?out and mid = ?fs1
            and d = "[''tmp'', ''Normal'']" and after = "[]"]
    a1 a2
  have a: "move_render_passes (staged False) [?d, [''tmp'', ''Normal'']] ?out = (?fs1, Inl IndexError)"
    by simp
  let ?f = "[''tmp'', ''Depth'', ''Image0001.jpg'']"
  let ?g = "[''tmp'', ''Depth'', ''Image0002.jpg'']"
  have b1: "glob_star_dot_star (staged_two False) ?d = [?f, ?g]"
    by (simp add: reconcile_eval staged_two_def)
  have b2: "map_of (files (staged_two False)) ?f = Some ''stale depth''"
    "?f \<noteq> ?t" "is_dir (staged_two False) (path_parent ?t)" "\<not> is_dir (staged_two False) ?t"
    "\<not> is_file (staged_two False) ?t"
    by (simp_all add: reconcile_eval staged_two_def)
  have "move_render_passes (staged_two False) [?d] ?out =
        move_render_passes
          ((staged_two False)\<lparr>files := filter (\<lambda>e. fst e \<noteq> ?f \<and> fst e \<noteq> ?t)
                                            (files (staged_two False)) @ [(?t, ''stale depth'')]\<rparr>)
          [] ?out"
    using move_render_passes_failures
            [where fs = "staged_two False" and d = ?d and f = ?f and others = "[?g]"
               and c = "''stale depth''" and t = ?t and ds = "[]" and out = ?out]
          b1 b2 t
    by blast
  then have b: "move_render_passes (staged_two False) [?d] ?out
     = ((staged_two False)\<lparr>files := [(?g, ''depth of A''), (?t, ''stale depth'')]\<rparr>, Inr ())"
    by (simp add: move_render_passes_def staged_two_def)
  have c1: "move_render_passes (staged_taken False) [] ?out = (staged_taken False, Inr ())"
    by (simp add: move_render_passes_def)
  have c2: "glob_star_dot_star (staged_taken False) ?d = [?f]"
    by (simp add: reconcile_eval staged_taken_def)
  have c3: "?f \<noteq> ?t" "is_dir (staged_taken False) (path_parent ?t)"
    "is_file (staged_taken False) ?t" "\<not> posix (staged_taken False)"
    by (simp_all add: reconcile_eval staged_taken_def)
  have "move_render_passes (staged_taken False) ([] @ ?d # []) ?out
          = (staged_taken False, Inl (FileExistsError ?f ?t))"
    using move_render_passes_failures
            [where fs = "staged_taken False" and before = "[]" and out = ?out
               and mid = "staged_taken False" and d = ?d and after = "[]" and f = ?f
               and others = "[]" and t = ?t]
          c1 c2 c3 t
    by blast
  then have c: "move_render_passes (staged_taken False) [?d] ?out
          = (staged_taken False, Inl (FileExistsError ?f ?t))"
    by simp
  show ?thesis
    using a1 a2 a b1 b c2 c3(3,4) c by simp
qed

lemma move_render_passes_failure_keeps:
  "move_render_passes fs [d] out = (fs', Inl e) \<Longrightarrow> fs' = fs"
  unfolding move_render_passes_def Let_def by (rule move_render_passes_loop_failure_keeps)

lemma main2_loop_append:
  "main2_loop render projection save_dirs w (xs @ ys) =
     (case main2_loop render projection save_dirs w xs of
        (w', Inl e) \<Rightarrow> (w', Inl e)
      | (w', Inr u) \<Rightarrow> main2_loop render projection save_dirs w' ys)"
  by (induction xs arbitrary: w) (auto split: sum.splits prod.splits)

lemma rename_error_paths:
  "rename fs src dst = (fs', Inl e) \<Longrightarrow> error_paths e = [src, dst]"
  by (auto simp: rename_def split: option.splits if_splits)

lemma move_render_passes_partial_state:
  assumes p: "move_render_passes fs before out = (mid, Inr ())"
    and q: "move_render_passes mid [d] out = (fin, Inl e)"
  shows "move_render_passes fs (before @ d # after) out = (mid, Inl e)"
proof -
  from q have k: "fin = mid" by (rule move_render_passes_failure_keeps)
  have "move_render_passes mid ([d] @ after) out = (mid, Inl e)"
    unfolding move_render_passes_append [of mid "[d]" after] using q k by simp
  then show ?thesis
    using p by (simp add: move_render_passes_append [of fs before])
qed

lemma move_render_passes_rename_error:
  assumes g: "glob_star_dot_star mid d = f # others"
    and t: "new_filepath out (path_stem out) (path_stem d) = Inr t"
    and q: "move_render_passes mid [d] out = (fin, Inl e)"
  shows "error_paths e = [f, t]"
proof -
  have "f \<in> set (glob_star_dot_star mid d)" using g by simp
  then have p: "path_parent f = d" by (rule glob_member)
  obtain fs' r where r: "rename mid f t = (fs', r)" by (cases "rename mid f t")
  from q have "r = Inl e"
    by (simp add: move_render_passes_def Let_def g p t r split: sum.splits)
  with r show ?thesis by (auto dest: rename_error_paths)
qed

lemma main2_loop_row:
  assumes "from_geographic projection (row_lat row) (row_lon row) = Inr (x, y)"
    and "place_camera w (x, y, row_alt row) (row_computed_compass_angle row)
           offset_altitude_default = (placed, Inr ())"
    and "render placed = (rendered, Inr ())"
    and "move_render_passes (w_fs rendered) save_dirs (joinpath savedir (row_image_id row))
           = (left, Inr ())"
  shows "main2_loop render projection save_dirs w (row # rows)
           = main2_loop render projection save_dirs (rendered\<lparr>w_fs := left\<rparr>) rows"
  using assms by simp

lemma main2_ready:
  assumes "create_nodes u (create_camera w) tmp_dir render_pass_names = (ready, Inr save_dirs)"
  shows "main2 u render scene_lat scene_lon rows w
           = main2_loop render (TransverseMercator_init scene_lat scene_lon 1) save_dirs ready rows"
  using assms by (simp add: main2_def Let_def)

lemma main2_stops:
  assumes c: "create_nodes u (create_camera w) tmp_dir render_pass_names = (ready, Inr save_dirs)"
    and l: "main2_loop render (TransverseMercator_init scene_lat scene_lon 1) save_dirs ready
              earlier = (reached, Inr ())"
    and g: "from_geographic (TransverseMercator_init scene_lat scene_lon 1)
              (row_lat row) (row_lon row) = Inr (x, y)"
    and p: "place_camera reached (x, y, row_alt row) (row_computed_compass_angle row)
              offset_altitude_default = (placed, Inr ())"
    and r: "render placed = (rendered, Inr ())"
    and m: "move_render_passes (w_fs rendered) save_dirs (joinpath savedir (row_image_id row))
              = (left, Inl e)"
  shows "main2 u render scene_lat scene_lon (earlier @ row # rows) w
           = (rendered\<lparr>w_fs := left\<rparr>, Inl e)"
proof -
  have "main2_loop render (TransverseMercator_init scene_lat scene_lon 1) save_dirs reached
          (row # rows) = (rendered\<lparr>w_fs := left\<rparr>, Inl e)"
    using g p r m by simp
  then have "main2_loop render (TransverseMercator_init scene_lat scene_lon 1) save_dirs ready
          (earlier @ row # rows) = (rendered\<lparr>w_fs := left\<rparr>, Inl e)"
    using l by (simp add: main2_loop_append)
  then show ?thesis
    by (simp add: main2_def Let_def c)
qed

lemma studio_first_row:
  "move_render_passes ((w_fs studio)\<lparr>files := staged_files\<rparr>)
      [joinpath tmp_dir ''Depth'', joinpath tmp_dir ''Normal'', joinpath tmp_dir ''DiffCol'']
      (joinpath savedir ''A'')
     = ((w_fs studio)\<lparr>files := moved_files\<rparr>, Inr ())"
  by (simp add: reconcile_eval studio_def staged_files_def moved_files_def tmp_dir_def
        savedir_def root_dir_def joinpath_def)

lemma studio_second_row:
  "move_render_passes ((w_fs studio)\<lparr>files := moved_files @ staged_files\<rparr>)
      [joinpath tmp_dir ''Depth'', joinpath tmp_dir ''Normal'', joinpath tmp_dir ''DiffCol'']
      (joinpath savedir ''A'')
     = ((w_fs studio)\<lparr>files := moved_files @ staged_files\<rparr>,
        Inl (FileExistsError (joinpath (joinpath tmp_dir ''Depth'') ''Image0001.jpg'')
               (joinpath savedir ''A_Depth.jpg'')))"
  by (simp add: reconcile_eval studio_def staged_files_def moved_files_def tmp_dir_def
        savedir_def root_dir_def joinpath_def)

text \<open>
  C8, as the claim states it, fails: with a file staged for \<open>Depth\<close> and none for
  \<open>Normal\<close>, \<open>move_render_passes\<close> raises \<open>IndexError\<close> after it has moved the depth
  file, and the output directory holds \<open>A_Depth.jpg\<close> without \<open>A_Normal.jpg\<close>. The
  \<open>IndexError\<close> names no path, hence no record.
\<close>

theorem move_render_passes_partial_counterexample:
  "move_render_passes (staged False) [[''tmp'', ''Depth''], [''tmp'', ''Normal'']] [''out'', ''A'']
     = ((staged False)\<lparr>files := [([''out'', ''A_Depth.jpg''], ''depth of A'')]\<rparr>, Inl IndexError)
   \<and> is_file (fst (move_render_passes (staged False)
                      [[''tmp'', ''Depth''], [''tmp'', ''Normal'']] [''out'', ''A'']))
        [''out'', ''A_Depth.jpg'']
   \<and> \<not> is_file (fst (move_render_passes (staged False)
                        [[''tmp'', ''Depth''], [''tmp'', ''Normal'']] [''out'', ''A'']))
          [''out'', ''A_Normal.jpg'']
   \<and> error_paths IndexError = []"
  by (simp add: reconcile_eval staged_def)

text \<open>
  C8, amended: when reconciliation fails at a layer after the layers before it were
  reconciled, the file system is left as those layers left it: their files stay in the
  output directory and nothing is rolled back. The failure is the exception of the
  failing statement: the \<open>IndexError\<close> of a staging directory without artifact names no
  path; the error of a failed \<open>rename\<close> names the staged file and the target path. When
  this happens for a row of the dataset, after the rows before it were processed,
  \<open>main2\<close> stops with that exception as it was raised, in the state reconciliation left;
  the rows after it are not processed.
\<close>

theorem move_render_passes_partial:
  "(move_render_passes fs before out = (mid, Inr ())
       \<and> move_render_passes mid [d] out = (fin, Inl e) \<longrightarrow>
      move_render_passes fs (before @ d # after) out = (mid, Inl e))
   \<and> (glob_star_dot_star mid d = [] \<longrightarrow>
      move_render_passes mid [d] out = (mid, Inl IndexError) \<and> error_paths IndexError = [])
   \<and> (glob_star_dot_star mid d = f # others
       \<and> new_filepath out (path_stem out) (path_stem d) = Inr t
       \<and> move_render_passes mid [d] out = (fin, Inl e) \<longrightarrow>
      error_paths e = [f, t])
   \<and> (create_nodes u (create_camera w) tmp_dir render_pass_names = (ready, Inr save_dirs)
       \<and> main2_loop render (TransverseMercator_init scene_lat scene_lon 1) save_dirs ready
            earlier = (reached, Inr ())
       \<and> from_geographic (TransverseMercator_init scene_lat scene_lon 1)
            (row_lat row) (row_lon row) = Inr (x, y)
       \<and> place_camera reached (x, y, row_alt row) (row_computed_compass_angle row)
            offset_altitude_default = (placed, Inr ())
       \<and> render placed = (rendered, Inr ())
       \<and> move_render_passes (w_fs rendered) save_dirs (joinpath savedir (row_image_id row))
            = (left, Inl e) \<longrightarrow>
      main2 u render scene_lat scene_lon (earlier @ row # rows) w
        = (rendered\<lparr>w_fs := left\<rparr>, Inl e))"
proof (intro conjI impI)
  assume "move_render_passes fs before out = (mid, Inr ())
       \<and> move_render_passes mid [d] out = (fin, Inl e)"
  then have "move_render_passes fs before out = (mid, Inr ())"
    and "move_render_passes mid [d] out = (fin, Inl e)" by simp_all
  then show "move_render_passes fs (before @ d # after) out = (mid, Inl e)"
    by (rule move_render_passes_partial_state)
next
  assume "glob_star_dot_star mid d = []"
  then show "move_render_passes mid [d] out = (mid, Inl IndexError)"
    by (simp add: move_render_passes_def)
next
  show "error_paths IndexError = []" by simp
next
  assume "glob_star_dot_star mid d = f # others
       \<and> new_filepath out (path_stem out) (path_stem d) = Inr t
       \<and> move_render_passes mid [d] out = (fin, Inl e)"
  then have "glob_star_dot_star mid d = f # others"
    and "new_filepath out (path_stem out) (path_stem d) = Inr t"
    and "move_render_passes mid [d] out = (fin, Inl e)" by simp_all
  then show "error_paths e = [f, t]"
    by (rule move_render_passes_rename_error)
next
  assume "create_nodes u (create_camera w) tmp_dir render_pass_names = (ready, Inr save_dirs)
       \<and> main2_loop render (TransverseMercator_init scene_lat scene_lon 1) save_dirs ready
            earlier = (reached, Inr ())
       \<and> from_geographic (TransverseMercator_init scene_lat scene_lon 1)
            (row_lat row) (row_lon row) = Inr (x, y)
       \<and> place_camera reached (x, y, row_alt row) (row_computed_compass_angle row)
            offset_altitude_default = (placed, Inr ())
       \<and> render placed = (rendered, Inr ())
       \<and> move_render_passes (w_fs rendered) save_dirs (joinpath savedir (row_image_id row))
            = (left, Inl e)"
  then have "create_nodes u (create_camera w) tmp_dir render_pass_names = (ready, Inr save_dirs)"
    and "main2_loop render (TransverseMercator_init scene_lat scene_lon 1) save_dirs ready
            earlier = (reached, Inr ())"
    and "from_geographic (TransverseMercator_init scene_lat scene_lon 1)
            (row_lat row) (row_lon row) = Inr (x, y)"
    and "place_camera reached (x, y, row_alt row) (row_computed_compass_angle row)
            offset_altitude_default = (placed, Inr ())"
    and "render placed = (rendered, Inr ())"
    and "move_render_passes (w_fs rendered) save_dirs (joinpath savedir (row_image_id row))
            = (left, Inl e)" by simp_all
  then show "main2 u render scene_lat scene_lon (earlier @ row # rows) w
        = (rendered\<lparr>w_fs := left\<rparr>, Inl e)"
    by (rule main2_stops)
qed

theorem move_render_passes_partial_witness:
  "move_render_passes (staged True) [[''tmp'', ''Depth'']] [''out'', ''A'']
     = ((staged True)\<lparr>files := [([''out'', ''A_Depth.jpg''], ''depth of A'')]\<rparr>, Inr ())
   \<and> glob_star_dot_star ((staged True)\<lparr>files := [([''out'', ''A_Depth.jpg''], ''depth of A'')]\<rparr>)
        [''tmp'', ''Normal''] = []
   \<and> move_render_passes (staged True) [[''tmp'', ''Depth''], [''tmp'', ''Normal'']] [''out'', ''A'']
     = ((staged True)\<lparr>files := [([''out'', ''A_Depth.jpg''], ''depth of A'')]\<rparr>, Inl IndexError)
   \<and> move_render_passes (staged_taken False) [[''tmp'', ''Depth'']] [''out'', ''A'']
     = (staged_taken False,
        Inl (FileExistsError [''tmp'', ''Depth'', ''Image0001.jpg''] [''out'', ''A_Depth.jpg'']))
   \<and> error_paths (FileExistsError [''tmp'', ''Depth'', ''Image0001.jpg''] [''out'', ''A_Depth.jpg''])
     = [[''tmp'', ''Depth'', ''Image0001.jpg''], [''out'', ''A_Depth.jpg'']]
   \<and> snd (create_nodes numbered_name (create_camera studio) tmp_dir render_pass_names)
     = Inr [joinpath tmp_dir ''Depth'', joinpath tmp_dir ''Normal'', joinpath tmp_dir ''DiffCol'']
   \<and> main2 numbered_name render_three 0 0 [row_A] studio
     = (fst (main2 numbered_name render_three 0 0 [row_A] studio), Inr ())
   \<and> w_fs (fst (main2 numbered_name render_three 0 0 [row_A] studio))
     = (w_fs studio)\<lparr>files := moved_files\<rparr>
   \<and> snd (main2 numbered_name render_three 0 0 [row_A, row_A, row_A] studio)
     = Inl (FileExistsError (joinpath (joinpath tmp_dir ''Depth'') ''Image0001.jpg'')
              (joinpath savedir ''A_Depth.jpg''))
   \<and> w_fs (fst (main2 numbered_name render_three 0 0 [row_A, row_A, row_A] studio))
     = (w_fs studio)\<lparr>files := moved_files @ staged_files\<rparr>"
proof -
  let ?out = "[''out'', ''A'']"
  let ?mid = "(staged True)\<lparr>files := [([''out'', ''A_Depth.jpg''], ''depth of A'')]\<rparr>"
  have a1: "move_render_passes (staged True) [[''tmp'', ''Depth'']] ?out = (?mid, Inr ())"
    by (simp add: reconcile_eval staged_def)
  have a2: "glob_star_dot_star ?mid [''tmp'', ''Normal''] = []"
    by (simp add: reconcile_eval staged_def)
  from move_render_passes_partial
         [where mid = ?mid and d = "[''tmp'', ''Normal'']" and out = ?out,
          THEN conjunct2, THEN conjunct1] a2
  have a3: "move_render_passes ?mid [[''tmp'', ''Normal'']] ?out = (?mid, Inl IndexError)"
    by simp
  from move_render_passes_partial
         [where fs = "staged True" and before = "[[''tmp'', ''Depth'']]" and out = ?out
            and mid = ?mid and d = "[''tmp'', ''Normal'']" and fin = ?mid and e = IndexError
            and after = "[]", THEN conjunct1]
       a1 a3
  have a: "move_render_passes (staged True) [[''tmp'', ''Depth''], [''tmp'', ''Normal'']] ?out
             = (?mid, Inl IndexError)"
    by simp
  let ?f = "[''tmp'', ''Depth'', ''Image0001.jpg'']"
  let ?t = "[''out'', ''A_Depth.jpg'']"
  have c1: "glob_star_dot_star (staged_taken False) [''tmp'', ''Depth''] = [?f]"
    by (simp add: reconcile_eval staged_taken_def)
  have c2: "new_filepath ?out (path_stem ?out) (path_stem [''tmp'', ''Depth'']) = Inr ?t"
    by (simp add: reconcile_eval)
  have c3: "move_render_passes (staged_taken False) [[''tmp'', ''Depth'']] ?out
              = (staged_taken False, Inl (FileExistsError ?f ?t))"
    by (simp add: reconcile_eval staged_taken_def)
  from move_render_passes_partial
         [where mid = "staged_taken False" and d = "[''tmp'', ''Depth'']" and out = ?out
            and f = ?f and others = "[]" and t = ?t and fin = "staged_taken False"
            and e = "FileExistsError ?f ?t",
          THEN conjunct2, THEN conjunct2, THEN conjunct1]
       c1 c2 c3
  have c: "error_paths (FileExistsError ?f ?t) = [?f, ?t]"
    by blast
  let ?proj = "TransverseMercator_init 0 0 1"
  let ?sd = "[joinpath tmp_dir ''Depth'', joinpath tmp_dir ''Normal'', joinpath tmp_dir ''DiffCol'']"
  let ?w0 = "create_camera studio"
  let ?cn = "create_nodes numbered_name ?w0 tmp_dir render_pass_names"
  let ?cam = "\<lparr>cam_location = (0, 0, 10.3), cam_rotation_euler = mapillary_to_euler 0\<rparr>"
  let ?e = "FileExistsError (joinpath (joinpath tmp_dir ''Depth'') ''Image0001.jpg'')
              (joinpath savedir ''A_Depth.jpg'')"
  define ready where "ready = fst ?cn"
  define placed1 where "placed1 = ready\<lparr>w_camera := Some ?cam\<rparr>"
  define rendered1 where "rendered1 = placed1\<lparr>w_fs := (w_fs studio)\<lparr>files := staged_files\<rparr>\<rparr>"
  define reached where "reached = rendered1\<lparr>w_fs := (w_fs studio)\<lparr>files := moved_files\<rparr>\<rparr>"
  define placed2 where "placed2 = reached\<lparr>w_camera := Some ?cam\<rparr>"
  define rendered2
    where "rendered2 = placed2\<lparr>w_fs := (w_fs studio)\<lparr>files := moved_files @ staged_files\<rparr>\<rparr>"
  have t0: "w_node_tree ?w0 = Some \<lparr>tree_nodes = [], tree_links = []\<rparr>"
    by (simp add: create_camera_def studio_def)
  have p0: "set render_pass_names \<subseteq> set (w_passes ?w0)"
    by (simp add: create_camera_def studio_def render_pass_names_def)
  note cn = create_nodes_ok [OF t0 p0, of numbered_name tmp_dir]
  have cn_snd: "snd ?cn = Inr ?sd"
    unfolding cn by (simp add: render_pass_names_def)
  then have cn_eq: "?cn = (ready, Inr ?sd)"
    by (simp add: prod_eq_iff ready_def)
  have ready_fs: "w_fs ready = w_fs studio"
    unfolding ready_def cn by (simp add: create_camera_def)
  have ready_cam: "w_camera ready
      = Some \<lparr>cam_location = (0, 0, 0), cam_rotation_euler = [0, 0, 0]\<rparr>"
    unfolding ready_def cn by (simp add: create_camera_def)
  have sf: "files (w_fs studio) = []" by (simp add: studio_def)
  have o: "from_geographic ?proj (row_lat row_A) (row_lon row_A) = Inr (0, 0)"
    by (simp add: row_A_def from_geographic_origin)
  have pl1: "place_camera ready (0, 0, row_alt row_A) (row_computed_compass_angle row_A)
               offset_altitude_default = (placed1, Inr ())"
    by (simp add: place_camera_def ready_cam placed1_def row_A_def offset_altitude_default_def)
  have rd1: "render_three placed1 = (rendered1, Inr ())"
    by (simp add: render_three_def placed1_def rendered1_def ready_fs sf staged_files_def)
  have m1: "move_render_passes (w_fs rendered1) ?sd (joinpath savedir (row_image_id row_A))
              = ((w_fs studio)\<lparr>files := moved_files\<rparr>, Inr ())"
    by (simp add: rendered1_def row_A_def studio_first_row)
  have l1: "main2_loop render_three ?proj ?sd ready [row_A] = (reached, Inr ())"
    unfolding main2_loop_row [where render = render_three, OF o pl1 rd1 m1]
    by (simp add: reached_def)
  have one: "main2 numbered_name render_three 0 0 [row_A] studio = (reached, Inr ())"
    unfolding main2_ready [OF cn_eq] by (rule l1)
  have reached_cam: "w_camera reached = Some ?cam"
    by (simp add: reached_def rendered1_def placed1_def)
  have pl2: "place_camera reached (0, 0, row_alt row_A) (row_computed_compass_angle row_A)
               offset_altitude_default = (placed2, Inr ())"
    by (simp add: place_camera_def reached_cam placed2_def row_A_def offset_altitude_default_def)
  have rd2: "render_three placed2 = (rendered2, Inr ())"
    by (simp add: render_three_def placed2_def rendered2_def reached_def staged_files_def)
  have m2: "move_render_passes (w_fs rendered2) ?sd (joinpath savedir (row_image_id row_A))
              = ((w_fs studio)\<lparr>files := moved_files @ staged_files\<rparr>, Inl ?e)"
    by (simp add: rendered2_def row_A_def studio_second_row)
  from move_render_passes_partial
         [where u = numbered_name and w = studio and ready = ready and save_dirs = ?sd
            and render = render_three and scene_lat = 0 and scene_lon = 0
            and earlier = "[row_A]" and reached = reached and row = row_A and x = 0 and y = 0
            and placed = placed2 and rendered = rendered2
            and left = "(w_fs studio)\<lparr>files := moved_files @ staged_files\<rparr>" and e = ?e
            and rows = "[row_A]", THEN conjunct2, THEN conjunct2, THEN conjunct2]
       cn_eq l1 o pl2 rd2 m2
  have three: "main2 numbered_name render_three 0 0 ([row_A] @ row_A # [row_A]) studio
                 = (rendered2\<lparr>w_fs := (w_fs studio)\<lparr>files := moved_files @ staged_files\<rparr>\<rparr>,
                    Inl ?e)"
    by blast
  have one_fs: "w_fs reached = (w_fs studio)\<lparr>files := moved_files\<rparr>"
    by (simp add: reached_def)
  show ?thesis
    using a1 a2 a c3 c cn_snd one one_fs three by simp
qed

end
